theory Spec2Isabelle
  imports Main "HOL-Library.Word" "HOL-Library.Monad_Syntax"
begin

unbundle bit_operations_syntax

section \<open>Data model of rshim\_pcie\_lf.c\<close>

text \<open>
  C \<^verbatim>\<open>int\<close> and \<^verbatim>\<open>uint32_t\<close> values that reach the hardware (offsets, addresses,
  channels, data) are 32-bit words: \<open>+\<close> wraps, \<open>AND\<close>/\<open>OR\<close> are bitwise.
  Return codes (\<^verbatim>\<open>int rc\<close>) are small signed numbers and are kept as \<open>int\<close>.
\<close>

type_synonym u8 = "8 word"
type_synonym u16 = "16 word"
type_synonym u32 = "32 word"
type_synonym u64 = "64 word"

subsection \<open>Constants defined in the file (lines 20--45)\<close>

definition BLUEFIELD1_DEVICE_ID :: u16 where "BLUEFIELD1_DEVICE_ID = 0x0211"
definition BLUEFIELD2_DEVICE_ID :: u16 where "BLUEFIELD2_DEVICE_ID = 0x0214"

definition MELLANOX_ADDR :: u32 where "MELLANOX_ADDR = 0x58"
definition MELLANOX_DATA :: u32 where "MELLANOX_DATA = 0x5c"
definition MELLANOX_CAP_READ :: u32 where "MELLANOX_CAP_READ = 0x1"

definition TRIO_CR_GW_LOCK :: u32 where "TRIO_CR_GW_LOCK = 0xe38a0"
definition TRIO_CR_GW_DATA_LOWER :: u32 where "TRIO_CR_GW_DATA_LOWER = 0xe38b0"
definition TRIO_CR_GW_CTL :: u32 where "TRIO_CR_GW_CTL = 0xe38b4"
definition TRIO_CR_GW_ADDR_LOWER :: u32 where "TRIO_CR_GW_ADDR_LOWER = 0xe38bc"
definition TRIO_CR_GW_LOCK_ACQUIRED :: u32 where "TRIO_CR_GW_LOCK_ACQUIRED = 0x80000000"
definition TRIO_CR_GW_LOCK_RELEASE :: u32 where "TRIO_CR_GW_LOCK_RELEASE = 0x0"
definition TRIO_CR_GW_TRIGGER :: u32 where "TRIO_CR_GW_TRIGGER = 0xe0000000"
definition TRIO_CR_GW_READ_4BYTE :: u32 where "TRIO_CR_GW_READ_4BYTE = 0x6"
definition TRIO_CR_GW_WRITE_4BYTE :: u32 where "TRIO_CR_GW_WRITE_4BYTE = 0x2"

definition CRSPACE_RSH_CHANNEL1_BASE :: u32 where "CRSPACE_RSH_CHANNEL1_BASE = 0x310000"

text \<open>The errno values of Linux (\<^verbatim>\<open>errno.h\<close>); the code returns them negated.\<close>

definition ENODEV :: int where "ENODEV = 19"
definition ETIMEDOUT :: int where "ETIMEDOUT = 110"

subsection \<open>Constants of rshim.h, which the file includes but does not define\<close>

text \<open>
  The header \<^verbatim>\<open>rshim.h\<close> supplies the retry bound, the channel addressing macro and
  the register offsets and bit patterns of the Byte Access Widget. Every function
  below takes them as the parameter \<open>cs\<close>; nothing is assumed about their values
  except where a theorem says so.
\<close>

record rshim_consts =
  LOCK_RETRY_CNT :: u32
  RSH_CHANNEL_BASE :: "u32 \<Rightarrow> u32"
  RSHIM_CHANNEL :: u32
  RSH_BOOT_FIFO_DATA :: u32
  RSH_SCRATCHPAD :: u32
  RSH_BYTE_ACC_CTL :: u32
  RSH_BYTE_ACC_ADDR :: u32
  RSH_BYTE_ACC_RDAT :: u32
  RSH_BYTE_ACC_WDAT :: u32
  RSH_BYTE_ACC_INTERLOCK :: u32
  RSH_BYTE_ACC_PENDING :: u32
  RSH_BYTE_ACC_READ_TRIGGER :: u32
  RSH_BYTE_ACC_SIZE_4BYTE :: u32

subsection \<open>PCI configuration space: the environment\<close>

text \<open>
  \<^verbatim>\<open>pci_write_long\<close> and \<^verbatim>\<open>pci_read_long\<close> belong to libpci. The device behind them
  is a state \<open>'h\<close> that every transaction may change; the write returns an \<^verbatim>\<open>int\<close>,
  the read returns the 32-bit value and has no way to report a failure.
\<close>

record 'h pci_ops =
  pci_write_long :: "'h \<Rightarrow> u32 \<Rightarrow> u32 \<Rightarrow> int \<times> 'h"
  pci_read_long :: "'h \<Rightarrow> u32 \<Rightarrow> u32 \<times> 'h"

text \<open>The byte order conversions of a little-endian host: both swap the four bytes.\<close>

definition bswap32 :: "u32 \<Rightarrow> u32" where
  "bswap32 x = push_bit 24 (x AND 0xff) OR push_bit 8 (x AND 0xff00)
               OR (drop_bit 8 x AND 0xff00) OR drop_bit 24 x"

definition htonl :: "u32 \<Rightarrow> u32" where "htonl = bswap32"
definition ntohl :: "u32 \<Rightarrow> u32" where "ntohl = bswap32"

section \<open>Capability register accessor (lines 57--94)\<close>

text \<open>
  An out-parameter \<^verbatim>\<open>*result\<close> is threaded: the function takes what the caller's
  variable holds and returns what it holds afterwards.
\<close>

definition pci_cap_read :: "'h pci_ops \<Rightarrow> 'h \<Rightarrow> u32 \<Rightarrow> u32 \<Rightarrow> int \<times> u32 \<times> 'h" where
  "pci_cap_read ops h offset result =
     (let (rc, h) = pci_write_long ops h MELLANOX_ADDR (offset OR MELLANOX_CAP_READ) in
      if rc < 0 then (rc, result, h)
      else let (v, h) = pci_read_long ops h MELLANOX_DATA in
        (0, v, h))"

definition pci_cap_write :: "'h pci_ops \<Rightarrow> 'h \<Rightarrow> u32 \<Rightarrow> u32 \<Rightarrow> int \<times> 'h" where
  "pci_cap_write ops h offset val =
     (let (rc, h) = pci_write_long ops h MELLANOX_DATA val in
      if rc < 0 then (rc, h)
      else let (rc, h) = pci_write_long ops h MELLANOX_ADDR offset in
        if rc < 0 then (rc, h)
        else (0, h))"

section \<open>Gateway lock (lines 96--128)\<close>

text \<open>
  The \<^verbatim>\<open>do ... while\<close> loop of \<^verbatim>\<open>trio_cr_gw_lock_acquire\<close>, from the loop head to
  the end of the function, with the locals \<^verbatim>\<open>retry\<close> and \<^verbatim>\<open>read_value\<close> as arguments.
  \<^verbatim>\<open>retry\<close> is a \<^verbatim>\<open>uint32_t\<close>: the increment wraps and the comparison is unsigned, so
  with a bound of \<^verbatim>\<open>0xffffffff\<close> the loop need not end; not returning is the value
  \<open>None\<close>. Beside the return code the model hands back the last value of \<^verbatim>\<open>retry\<close>,
  which counts how often the loop body was entered.
\<close>

partial_function (option) trio_cr_gw_lock_acquire_loop ::
  "rshim_consts \<Rightarrow> 'h pci_ops \<Rightarrow> u32 \<Rightarrow> u32 \<Rightarrow> 'h \<Rightarrow> (int \<times> u32 \<times> 'h) option" where
  "trio_cr_gw_lock_acquire_loop cs ops retry read_value h =
     (case pci_cap_read ops h TRIO_CR_GW_LOCK read_value of (rc, read_value, h) \<Rightarrow>
      if rc \<noteq> 0 then Some (rc, retry, h)
      else let retry = retry + 1 in
      if retry > LOCK_RETRY_CNT cs then Some (- ETIMEDOUT, retry, h)
      else if read_value AND TRIO_CR_GW_LOCK_ACQUIRED \<noteq> 0
        then trio_cr_gw_lock_acquire_loop cs ops retry read_value h
      else (case pci_cap_write ops h TRIO_CR_GW_LOCK TRIO_CR_GW_LOCK_ACQUIRED of (rc, h) \<Rightarrow>
        if rc \<noteq> 0 then Some (rc, retry, h)
        else Some (0, retry, h)))"

declare trio_cr_gw_lock_acquire_loop.simps [code]

text \<open>The locals start uninitialised; \<^verbatim>\<open>read_value\<close> is written before it is read.\<close>

definition trio_cr_gw_lock_acquire ::
  "rshim_consts \<Rightarrow> 'h pci_ops \<Rightarrow> 'h \<Rightarrow> (int \<times> 'h) option" where
  "trio_cr_gw_lock_acquire cs ops h =
     do {
       (rc, retry, h) \<leftarrow> trio_cr_gw_lock_acquire_loop cs ops 0 0 h;
       Some (rc, h)
     }"

definition trio_cr_gw_lock_release :: "'h pci_ops \<Rightarrow> 'h \<Rightarrow> int \<times> 'h" where
  "trio_cr_gw_lock_release ops h = pci_cap_write ops h TRIO_CR_GW_LOCK TRIO_CR_GW_LOCK_RELEASE"

section \<open>CR-space indirect accessor (lines 130--230)\<close>

text \<open>
  \<open>did\<close> is \<^verbatim>\<open>pci_dev->device_id\<close> and \<open>h\<close> the device behind \<^verbatim>\<open>pci_dev\<close>.
  Only the gateway lock acquisition can fail to return, so the result is an option.
\<close>

definition crspace_rsh_gw_read ::
  "rshim_consts \<Rightarrow> 'h pci_ops \<Rightarrow> u16 \<Rightarrow> 'h \<Rightarrow> u32 \<Rightarrow> u32 \<Rightarrow> (int \<times> u32 \<times> 'h) option" where
  "crspace_rsh_gw_read cs ops did h addr result =
     (if did = BLUEFIELD2_DEVICE_ID then
        (let addr = (addr AND 0xffff) + CRSPACE_RSH_CHANNEL1_BASE in
         Some (pci_cap_read ops h addr result))
      else
        (let addr = addr + RSH_CHANNEL_BASE cs (RSHIM_CHANNEL cs) in
         do {
           (rc, h) \<leftarrow> trio_cr_gw_lock_acquire cs ops h;
           if rc \<noteq> 0 then Some (rc, result, h)
           else case pci_cap_write ops h TRIO_CR_GW_ADDR_LOWER addr of (rc, h) \<Rightarrow>
           if rc \<noteq> 0 then Some (rc, result, h)
           else case pci_cap_write ops h TRIO_CR_GW_CTL TRIO_CR_GW_READ_4BYTE of (rc, h) \<Rightarrow>
           if rc \<noteq> 0 then Some (rc, result, h)
           else case pci_cap_write ops h TRIO_CR_GW_LOCK TRIO_CR_GW_TRIGGER of (rc, h) \<Rightarrow>
           if rc \<noteq> 0 then Some (rc, result, h)
           else case pci_cap_read ops h TRIO_CR_GW_DATA_LOWER result of (rc, result, h) \<Rightarrow>
           if rc \<noteq> 0 then Some (rc, result, h)
           else let result = ntohl result in
           case trio_cr_gw_lock_release ops h of (rc, h) \<Rightarrow>
           if rc \<noteq> 0 then Some (rc, result, h)
           else Some (0, result, h)
         }))"

definition crspace_rsh_gw_write ::
  "rshim_consts \<Rightarrow> 'h pci_ops \<Rightarrow> u16 \<Rightarrow> 'h \<Rightarrow> u32 \<Rightarrow> u32 \<Rightarrow> (int \<times> 'h) option" where
  "crspace_rsh_gw_write cs ops did h addr val =
     (if did = BLUEFIELD2_DEVICE_ID then
        (let addr = (addr AND 0xffff) + CRSPACE_RSH_CHANNEL1_BASE in
         Some (pci_cap_write ops h addr val))
      else
        (let addr = (if addr AND 0xffff \<noteq> RSH_BOOT_FIFO_DATA cs
                     then addr + RSH_CHANNEL_BASE cs (RSHIM_CHANNEL cs) else addr) in
         do {
           (rc, h) \<leftarrow> trio_cr_gw_lock_acquire cs ops h;
           if rc \<noteq> 0 then Some (rc, h)
           else case pci_cap_write ops h TRIO_CR_GW_DATA_LOWER (htonl val) of (rc, h) \<Rightarrow>
           if rc \<noteq> 0 then Some (rc, h)
           else case pci_cap_write ops h TRIO_CR_GW_ADDR_LOWER addr of (rc, h) \<Rightarrow>
           if rc \<noteq> 0 then Some (rc, h)
           else case pci_cap_write ops h TRIO_CR_GW_CTL TRIO_CR_GW_WRITE_4BYTE of (rc, h) \<Rightarrow>
           if rc \<noteq> 0 then Some (rc, h)
           else case pci_cap_write ops h TRIO_CR_GW_LOCK TRIO_CR_GW_TRIGGER of (rc, h) \<Rightarrow>
           if rc \<noteq> 0 then Some (rc, h)
           else case trio_cr_gw_lock_release ops h of (rc, h) \<Rightarrow>
           if rc \<noteq> 0 then Some (rc, h)
           else Some (0, h)
         }))"

section \<open>Byte Access Widget (lines 232--387)\<close>

text \<open>
  The loop of \<^verbatim>\<open>rshim_byte_acc_pending_wait\<close>; \<^verbatim>\<open>retry\<close> is a \<^verbatim>\<open>uint32_t\<close> and
  \<^verbatim>\<open>read_value\<close> keeps its content between iterations.
\<close>

partial_function (option) rshim_byte_acc_pending_wait_loop ::
  "rshim_consts \<Rightarrow> 'h pci_ops \<Rightarrow> u16 \<Rightarrow> u32 \<Rightarrow> u32 \<Rightarrow> 'h \<Rightarrow> (int \<times> u32 \<times> 'h) option" where
  "rshim_byte_acc_pending_wait_loop cs ops did retry read_value h =
     do {
       (rc, read_value, h) \<leftarrow> crspace_rsh_gw_read cs ops did h (RSH_BYTE_ACC_CTL cs) read_value;
       if rc \<noteq> 0 then Some (rc, retry, h)
       else let retry = retry + 1 in
       if retry > LOCK_RETRY_CNT cs then Some (- ETIMEDOUT, retry, h)
       else if read_value AND RSH_BYTE_ACC_PENDING cs \<noteq> 0
         then rshim_byte_acc_pending_wait_loop cs ops did retry read_value h
       else Some (0, retry, h)
     }"

declare rshim_byte_acc_pending_wait_loop.simps [code]

text \<open>The local \<^verbatim>\<open>read_value\<close> starts uninitialised; it is written before it is read.\<close>

definition rshim_byte_acc_pending_wait ::
  "rshim_consts \<Rightarrow> 'h pci_ops \<Rightarrow> u16 \<Rightarrow> 'h \<Rightarrow> (int \<times> 'h) option" where
  "rshim_byte_acc_pending_wait cs ops did h =
     do {
       (rc, retry, h) \<leftarrow> rshim_byte_acc_pending_wait_loop cs ops did 0 0 h;
       Some (rc, h)
     }"

text \<open>
  The loop of \<^verbatim>\<open>rshim_byte_acc_lock_acquire\<close>. Here \<^verbatim>\<open>retry\<close> is an \<^verbatim>\<open>int\<close>, so the
  comparison with the bound is signed, and the bound is checked before the read.
\<close>

partial_function (option) rshim_byte_acc_lock_acquire_loop ::
  "rshim_consts \<Rightarrow> 'h pci_ops \<Rightarrow> u16 \<Rightarrow> u32 \<Rightarrow> u32 \<Rightarrow> 'h \<Rightarrow> (int \<times> u32 \<times> 'h) option" where
  "rshim_byte_acc_lock_acquire_loop cs ops did retry read_value h =
     (let retry = retry + 1 in
      if LOCK_RETRY_CNT cs <s retry then Some (- ETIMEDOUT, retry, h)
      else do {
        (rc, read_value, h) \<leftarrow>
          crspace_rsh_gw_read cs ops did h (RSH_BYTE_ACC_INTERLOCK cs) read_value;
        if rc \<noteq> 0 then Some (rc, retry, h)
        else if \<not> (read_value AND 0x1 \<noteq> 0)
          then rshim_byte_acc_lock_acquire_loop cs ops did retry read_value h
        else Some (0, retry, h)
      })"

declare rshim_byte_acc_lock_acquire_loop.simps [code]

definition rshim_byte_acc_lock_acquire ::
  "rshim_consts \<Rightarrow> 'h pci_ops \<Rightarrow> u16 \<Rightarrow> 'h \<Rightarrow> (int \<times> 'h) option" where
  "rshim_byte_acc_lock_acquire cs ops did h =
     do {
       (rc, retry, h) \<leftarrow> rshim_byte_acc_lock_acquire_loop cs ops did 0 0 h;
       Some (rc, h)
     }"

definition rshim_byte_acc_lock_release ::
  "rshim_consts \<Rightarrow> 'h pci_ops \<Rightarrow> u16 \<Rightarrow> 'h \<Rightarrow> (int \<times> 'h) option" where
  "rshim_byte_acc_lock_release cs ops did h =
     crspace_rsh_gw_write cs ops did h (RSH_BYTE_ACC_INTERLOCK cs) 0"

text \<open>The label \<^verbatim>\<open>exit_read\<close> (lines 336--341): on BlueField-2 the release overwrites \<^verbatim>\<open>rc\<close>.\<close>

definition exit_read ::
  "rshim_consts \<Rightarrow> 'h pci_ops \<Rightarrow> u16 \<Rightarrow> 'h \<Rightarrow> int \<Rightarrow> u64 \<Rightarrow> (int \<times> u64 \<times> 'h) option" where
  "exit_read cs ops did h rc result =
     (if did = BLUEFIELD2_DEVICE_ID then do {
        (rc, h) \<leftarrow> rshim_byte_acc_lock_release cs ops did h;
        Some (rc, result, h)
      }
      else Some (rc, result, h))"

text \<open>Lines 299--341 of \<^verbatim>\<open>rshim_byte_acc_read\<close>, after the interlock has been taken.\<close>

definition rshim_byte_acc_read_body ::
  "rshim_consts \<Rightarrow> 'h pci_ops \<Rightarrow> u16 \<Rightarrow> 'h \<Rightarrow> u32 \<Rightarrow> u64 \<Rightarrow> (int \<times> u64 \<times> 'h) option" where
  "rshim_byte_acc_read_body cs ops did h addr result =
     do {
       (rc, h) \<leftarrow> crspace_rsh_gw_write cs ops did h (RSH_BYTE_ACC_ADDR cs) addr;
       if rc \<noteq> 0 then exit_read cs ops did h rc result
       else do {
       (rc, h) \<leftarrow> crspace_rsh_gw_write cs ops did h (RSH_BYTE_ACC_CTL cs)
                    (RSH_BYTE_ACC_READ_TRIGGER cs OR RSH_BYTE_ACC_SIZE_4BYTE cs);
       if rc \<noteq> 0 then exit_read cs ops did h rc result
       else do {
       (rc, h) \<leftarrow> rshim_byte_acc_pending_wait cs ops did h;
       if rc \<noteq> 0 then exit_read cs ops did h rc result
       else do {
       (rc, read_value, h) \<leftarrow> crspace_rsh_gw_read cs ops did h (RSH_BYTE_ACC_RDAT cs) 0;
       if rc \<noteq> 0 then exit_read cs ops did h rc result
       else let read_result = (ucast read_value :: u64) in do {
       (rc, h) \<leftarrow> rshim_byte_acc_pending_wait cs ops did h;
       if rc \<noteq> 0 then exit_read cs ops did h rc result
       else do {
       (rc, read_value, h) \<leftarrow>
          crspace_rsh_gw_read cs ops did h (RSH_BYTE_ACC_RDAT cs) read_value;
       if rc \<noteq> 0 then exit_read cs ops did h rc result
       else let read_result = read_result OR push_bit 32 (ucast read_value :: u64);
                result = read_result
            in exit_read cs ops did h rc result
       }}}}}}"

definition rshim_byte_acc_read ::
  "rshim_consts \<Rightarrow> 'h pci_ops \<Rightarrow> u16 \<Rightarrow> 'h \<Rightarrow> u32 \<Rightarrow> u64 \<Rightarrow> (int \<times> u64 \<times> 'h) option" where
  "rshim_byte_acc_read cs ops did h addr result =
     do {
       (rc, h) \<leftarrow> rshim_byte_acc_pending_wait cs ops did h;
       if rc \<noteq> 0 then Some (rc, result, h)
       else if did = BLUEFIELD2_DEVICE_ID then do {
         (rc, h) \<leftarrow> rshim_byte_acc_lock_acquire cs ops did h;
         if rc \<noteq> 0 then Some (rc, result, h)
         else rshim_byte_acc_read_body cs ops did h addr result
       }
       else rshim_byte_acc_read_body cs ops did h addr result
     }"

text \<open>The label \<^verbatim>\<open>exit_write\<close> (lines 382--386).\<close>

definition exit_write ::
  "rshim_consts \<Rightarrow> 'h pci_ops \<Rightarrow> u16 \<Rightarrow> 'h \<Rightarrow> int \<Rightarrow> (int \<times> 'h) option" where
  "exit_write cs ops did h rc =
     (if did = BLUEFIELD2_DEVICE_ID then rshim_byte_acc_lock_release cs ops did h
      else Some (rc, h))"

text \<open>Lines 356--386 of \<^verbatim>\<open>rshim_byte_acc_write\<close>, after the interlock has been taken.\<close>

definition rshim_byte_acc_write_body ::
  "rshim_consts \<Rightarrow> 'h pci_ops \<Rightarrow> u16 \<Rightarrow> 'h \<Rightarrow> u32 \<Rightarrow> u64 \<Rightarrow> (int \<times> 'h) option" where
  "rshim_byte_acc_write_body cs ops did h addr val =
     do {
       (rc, h) \<leftarrow> crspace_rsh_gw_write cs ops did h (RSH_BYTE_ACC_ADDR cs) addr;
       if rc \<noteq> 0 then Some (rc, h)
       else do {
       (rc, h) \<leftarrow> crspace_rsh_gw_write cs ops did h (RSH_BYTE_ACC_CTL cs)
                    (RSH_BYTE_ACC_SIZE_4BYTE cs);
       if rc \<noteq> 0 then exit_write cs ops did h rc
       else do {
       (rc, h) \<leftarrow> crspace_rsh_gw_write cs ops did h (RSH_BYTE_ACC_WDAT cs) (ucast val);
       if rc \<noteq> 0 then exit_write cs ops did h rc
       else do {
       (rc, h) \<leftarrow> rshim_byte_acc_pending_wait cs ops did h;
       if rc \<noteq> 0 then exit_write cs ops did h rc
       else do {
       (rc, h) \<leftarrow> crspace_rsh_gw_write cs ops did h (RSH_BYTE_ACC_WDAT cs)
                    (ucast (drop_bit 32 val));
       if rc \<noteq> 0 then exit_write cs ops did h rc
       else exit_write cs ops did h rc
       }}}}}"

definition rshim_byte_acc_write ::
  "rshim_consts \<Rightarrow> 'h pci_ops \<Rightarrow> u16 \<Rightarrow> 'h \<Rightarrow> u32 \<Rightarrow> u64 \<Rightarrow> (int \<times> 'h) option" where
  "rshim_byte_acc_write cs ops did h addr val =
     (if did = BLUEFIELD2_DEVICE_ID then do {
        (rc, h) \<leftarrow> rshim_byte_acc_lock_acquire cs ops did h;
        if rc \<noteq> 0 then Some (rc, h)
        else rshim_byte_acc_write_body cs ops did h addr val
      }
      else rshim_byte_acc_write_body cs ops did h addr val)"

section \<open>Boot FIFO writer (lines 389--412)\<close>

definition rshim_boot_fifo_write ::
  "rshim_consts \<Rightarrow> 'h pci_ops \<Rightarrow> u16 \<Rightarrow> 'h \<Rightarrow> u32 \<Rightarrow> u64 \<Rightarrow> (int \<times> 'h) option" where
  "rshim_boot_fifo_write cs ops did h addr val =
     do {
       (rc, h) \<leftarrow> crspace_rsh_gw_write cs ops did h addr (ucast val);
       if rc \<noteq> 0 then Some (rc, h)
       else do {
       (rc, h) \<leftarrow> crspace_rsh_gw_write cs ops did h addr (ucast (drop_bit 32 val));
       if rc \<noteq> 0 then Some (rc, h)
       else Some (0, h)
       }}"

section \<open>Backend access dispatcher (lines 414--467)\<close>

text \<open>
  The fields of \<^verbatim>\<open>struct rshim_pcie\<close> that the dispatcher reads or writes:
  \<^verbatim>\<open>bd.has_rshim\<close>, \<^verbatim>\<open>pci_dev->device_id\<close> and the 8-bit \<^verbatim>\<open>write_count\<close>.
\<close>

record rshim_pcie =
  has_rshim :: bool
  device_id :: u16
  write_count :: u8

definition rshim_pcie_read ::
  "rshim_consts \<Rightarrow> 'h pci_ops \<Rightarrow> rshim_pcie \<Rightarrow> 'h \<Rightarrow> u32 \<Rightarrow> u32 \<Rightarrow> u64
   \<Rightarrow> (int \<times> u64 \<times> rshim_pcie \<times> 'h) option" where
  "rshim_pcie_read cs ops dev h chan addr result =
     (if \<not> has_rshim dev then Some (- ENODEV, result, dev, h)
      else let dev = dev\<lparr>write_count := 0\<rparr> in do {
        (rc, result, h) \<leftarrow>
          rshim_byte_acc_read cs ops (device_id dev) h (RSH_CHANNEL_BASE cs chan + addr) result;
        Some (rc, result, dev, h)
      })"

text \<open>
  Lines 453--459: the BlueField-1 write throttle. The drain read's return code and
  its (uninitialised) \<^verbatim>\<open>result\<close> are dropped.
\<close>

definition write_throttle ::
  "rshim_consts \<Rightarrow> 'h pci_ops \<Rightarrow> rshim_pcie \<Rightarrow> 'h \<Rightarrow> u32 \<Rightarrow> (rshim_pcie \<times> 'h) option" where
  "write_throttle cs ops dev h chan =
     (if device_id dev = BLUEFIELD1_DEVICE_ID then do {
        (dev, h) \<leftarrow>
          (if write_count dev = 7 then do {
             (rc, result, dev, h) \<leftarrow> rshim_pcie_read cs ops dev h chan (RSH_SCRATCHPAD cs) 0;
             Some (dev, h)
           }
           else Some (dev, h));
        Some (dev\<lparr>write_count := write_count dev + 1\<rparr>, h)
      }
      else Some (dev, h))"

definition rshim_pcie_write ::
  "rshim_consts \<Rightarrow> 'h pci_ops \<Rightarrow> rshim_pcie \<Rightarrow> 'h \<Rightarrow> u32 \<Rightarrow> u32 \<Rightarrow> u64
   \<Rightarrow> (int \<times> rshim_pcie \<times> 'h) option" where
  "rshim_pcie_write cs ops dev h chan addr val =
     (let is_boot_stream = (addr = RSH_BOOT_FIFO_DATA cs) in
      if \<not> has_rshim dev then Some (- ENODEV, dev, h)
      else do {
        (dev, h) \<leftarrow> write_throttle cs ops dev h chan;
        (rc, h) \<leftarrow>
          (if is_boot_stream
           then rshim_boot_fifo_write cs ops (device_id dev) h (RSH_CHANNEL_BASE cs chan + addr) val
           else rshim_byte_acc_write cs ops (device_id dev) h (RSH_CHANNEL_BASE cs chan + addr) val);
        Some (rc, dev, h)
      })"

text \<open>
  What \<^verbatim>\<open>rshim_pcie_probe\<close> stores in a new backend object (lines 499--523):
  \<^verbatim>\<open>has_rshim = 1\<close>, \<^verbatim>\<open>write_count = 0\<close> and the device that was found.
\<close>

definition rshim_pcie_probe :: "u16 \<Rightarrow> rshim_pcie" where
  "rshim_pcie_probe did = \<lparr>has_rshim = True, device_id = did, write_count = 0\<rparr>"


section \<open>Observing the configuration-space traffic\<close>

text \<open>
  One event per libpci call: a write with its position, data and return code, a read
  with its position and the value it delivered.
\<close>

datatype pci_event = PciWrite u32 u32 int | PciRead u32 u32

text \<open>Any device, with the list of the transactions it has seen so far next to it.\<close>

definition logged :: "'h pci_ops \<Rightarrow> ('h \<times> pci_event list) pci_ops" where
  "logged ops =
     \<lparr>pci_write_long = (\<lambda>(h, tr) pos v.
        case pci_write_long ops h pos v of (rc, h') \<Rightarrow> (rc, (h', tr @ [PciWrite pos v rc]))),
      pci_read_long = (\<lambda>(h, tr) pos.
        case pci_read_long ops h pos of (v, h') \<Rightarrow> (v, (h', tr @ [PciRead pos v])))\<rparr>"

text \<open>
  A scripted bus for fault injection. \<open>write_rcs\<close> are the return codes of the coming
  writes (0 once the list is used up); \<open>read_vals\<close> are the values of the coming
  reads (\<open>idle_val\<close> once the list is used up). A read scripted as \<open>None\<close> is a
  transaction that fails on the bus: it is counted in \<open>failed_reads\<close> and the caller
  of \<^verbatim>\<open>pci_read_long\<close> gets all ones.
\<close>

record sim_bus =
  write_rcs :: "int list"
  read_vals :: "u32 option list"
  idle_val :: u32
  failed_reads :: nat
  bus_log :: "pci_event list"

definition sim_write_long :: "sim_bus \<Rightarrow> u32 \<Rightarrow> u32 \<Rightarrow> int \<times> sim_bus" where
  "sim_write_long b pos v =
     (case write_rcs b of
        [] \<Rightarrow> (0, b\<lparr>bus_log := bus_log b @ [PciWrite pos v 0]\<rparr>)
      | rc # rcs \<Rightarrow> (rc, b\<lparr>write_rcs := rcs, bus_log := bus_log b @ [PciWrite pos v rc]\<rparr>))"

definition sim_read_long :: "sim_bus \<Rightarrow> u32 \<Rightarrow> u32 \<times> sim_bus" where
  "sim_read_long b pos =
     (case read_vals b of
        [] \<Rightarrow> (idle_val b, b\<lparr>bus_log := bus_log b @ [PciRead pos (idle_val b)]\<rparr>)
      | None # vs \<Rightarrow>
          (0xffffffff, b\<lparr>read_vals := vs, failed_reads := failed_reads b + 1,
                          bus_log := bus_log b @ [PciRead pos 0xffffffff]\<rparr>)
      | Some v # vs \<Rightarrow> (v, b\<lparr>read_vals := vs, bus_log := bus_log b @ [PciRead pos v]\<rparr>))"

definition sim_ops :: "sim_bus pci_ops" where
  "sim_ops = \<lparr>pci_write_long = sim_write_long, pci_read_long = sim_read_long\<rparr>"

definition sim_start :: "int list \<Rightarrow> u32 option list \<Rightarrow> u32 \<Rightarrow> sim_bus" where
  "sim_start rcs vs d =
     \<lparr>write_rcs = rcs, read_vals = vs, idle_val = d, failed_reads = 0, bus_log = []\<rparr>"

text \<open>
  One choice of the header's constants, used where a theorem is evaluated at a concrete
  input: a small retry bound, channels 64 KiB apart, distinct widget registers.
\<close>

definition test_consts :: rshim_consts where
  "test_consts =
     \<lparr>LOCK_RETRY_CNT = 3, RSH_CHANNEL_BASE = (\<lambda>chan. push_bit 16 chan),
      RSHIM_CHANNEL = 1, RSH_BOOT_FIFO_DATA = 0x408, RSH_SCRATCHPAD = 0x20,
      RSH_BYTE_ACC_CTL = 0x490, RSH_BYTE_ACC_ADDR = 0x4a8, RSH_BYTE_ACC_RDAT = 0x4a0,
      RSH_BYTE_ACC_WDAT = 0x498, RSH_BYTE_ACC_INTERLOCK = 0x4b0,
      RSH_BYTE_ACC_PENDING = 0x20000000, RSH_BYTE_ACC_READ_TRIGGER = 0x50000000,
      RSH_BYTE_ACC_SIZE_4BYTE = 0x10\<rparr>"

section \<open>Vocabulary of the theorems\<close>

text \<open>A call returns, and what it returns satisfies \<open>P\<close>.\<close>

definition returns :: "'a option \<Rightarrow> ('a \<Rightarrow> bool) \<Rightarrow> bool" where
  "returns m P = (case m of None \<Rightarrow> False | Some x \<Rightarrow> P x)"

text \<open>No configuration-space write of the device reports a failure.\<close>

definition writes_succeed :: "'h pci_ops \<Rightarrow> bool" where
  "writes_succeed ops = (\<forall>h pos v. 0 \<le> fst (pci_write_long ops h pos v))"

text \<open>
  A return code of the stack is never positive; on a device whose writes succeed it is
  0 or \<^verbatim>\<open>-ETIMEDOUT\<close>.
\<close>

definition rc_ok :: "'h pci_ops \<Rightarrow> int \<Rightarrow> bool" where
  "rc_ok ops rc = (rc \<le> 0 \<and> (writes_succeed ops \<longrightarrow> rc = 0 \<or> rc = - ETIMEDOUT))"

section \<open>Sequences of CR-space operations\<close>

text \<open>
  The steps the specification lists for a widget transaction: taking and releasing the
  interlock, waiting for the pending bit, and a 32-bit CR-space write of a value to a
  register. Each step is carried out by the function of the code that implements it.
\<close>

datatype cr_op = InterlockAcquire | InterlockRelease | PendingWait | CrWrite u32 u32

definition do_cr_op ::
  "rshim_consts \<Rightarrow> 'h pci_ops \<Rightarrow> u16 \<Rightarrow> 'h \<Rightarrow> cr_op \<Rightarrow> (int \<times> 'h) option" where
  "do_cr_op cs ops did h x =
     (case x of
        InterlockAcquire \<Rightarrow> rshim_byte_acc_lock_acquire cs ops did h
      | InterlockRelease \<Rightarrow> rshim_byte_acc_lock_release cs ops did h
      | PendingWait \<Rightarrow> rshim_byte_acc_pending_wait cs ops did h
      | CrWrite reg v \<Rightarrow> crspace_rsh_gw_write cs ops did h reg v)"

text \<open>The steps one after the other, each on the device as the one before left it; a
  step that fails ends the sequence with its return code.\<close>

fun do_cr_ops ::
  "rshim_consts \<Rightarrow> 'h pci_ops \<Rightarrow> u16 \<Rightarrow> 'h \<Rightarrow> cr_op list \<Rightarrow> (int \<times> 'h) option" where
  "do_cr_ops cs ops did h [] = Some (0, h)"
| "do_cr_ops cs ops did h (x # xs) =
     do {
       (rc, h) \<leftarrow> do_cr_op cs ops did h x;
       if rc \<noteq> 0 then Some (rc, h) else do_cr_ops cs ops did h xs
     }"

text \<open>
  The write sequence in the specification's words (section 4.4): interlock acquire on
  the newer revision, address write, control write with the size bits, pending wait,
  low word, pending wait, high word, interlock release on the newer revision.
\<close>

definition spec_write_ops :: "rshim_consts \<Rightarrow> u16 \<Rightarrow> u32 \<Rightarrow> u64 \<Rightarrow> cr_op list" where
  "spec_write_ops cs did addr val =
     (if did = BLUEFIELD2_DEVICE_ID then [InterlockAcquire] else []) @
     [CrWrite (RSH_BYTE_ACC_ADDR cs) addr,
      CrWrite (RSH_BYTE_ACC_CTL cs) (RSH_BYTE_ACC_SIZE_4BYTE cs),
      PendingWait,
      CrWrite (RSH_BYTE_ACC_WDAT cs) (ucast val),
      PendingWait,
      CrWrite (RSH_BYTE_ACC_WDAT cs) (ucast (drop_bit 32 val))] @
     (if did = BLUEFIELD2_DEVICE_ID then [InterlockRelease] else [])"

text \<open>The same without the pending wait between the control write and the low word.\<close>

definition write_ops :: "rshim_consts \<Rightarrow> u16 \<Rightarrow> u32 \<Rightarrow> u64 \<Rightarrow> cr_op list" where
  "write_ops cs did addr val =
     (if did = BLUEFIELD2_DEVICE_ID then [InterlockAcquire] else []) @
     [CrWrite (RSH_BYTE_ACC_ADDR cs) addr,
      CrWrite (RSH_BYTE_ACC_CTL cs) (RSH_BYTE_ACC_SIZE_4BYTE cs),
      CrWrite (RSH_BYTE_ACC_WDAT cs) (ucast val),
      PendingWait,
      CrWrite (RSH_BYTE_ACC_WDAT cs) (ucast (drop_bit 32 val))] @
     (if did = BLUEFIELD2_DEVICE_ID then [InterlockRelease] else [])"

section \<open>The routing as claimed\<close>

text \<open>
  The routing as the claim words it: the boot-FIFO data register goes to the Boot FIFO
  Writer with no channel base added, every other offset goes to the Byte Access Widget
  at \<open>channelBase(channel) + offset\<close>.
\<close>

definition claimed_route ::
  "rshim_consts \<Rightarrow> 'h pci_ops \<Rightarrow> u16 \<Rightarrow> 'h \<Rightarrow> u32 \<Rightarrow> u32 \<Rightarrow> u64 \<Rightarrow> (int \<times> 'h) option" where
  "claimed_route cs ops did h chan addr val =
     (if addr = RSH_BOOT_FIFO_DATA cs
      then rshim_boot_fifo_write cs ops did h (RSH_BOOT_FIFO_DATA cs) val
      else rshim_byte_acc_write cs ops did h (RSH_CHANNEL_BASE cs chan + addr) val)"

section \<open>Sequences of dispatcher calls\<close>

text \<open>
  A call of the front end: \<open>backendRead(channel, offset)\<close> or
  \<open>backendWrite(channel, offset, value)\<close>. The calls of one device are serialised by the
  caller's mutex, so a history is a list. Return codes and read results go back to the
  caller; only the backend object and the device carry over to the next call.
\<close>

datatype call = BackendRead u32 u32 | BackendWrite u32 u32 u64

fun is_read :: "call \<Rightarrow> bool" where
  "is_read (BackendRead chan addr) = True"
| "is_read (BackendWrite chan addr val) = False"

fun is_write :: "call \<Rightarrow> bool" where
  "is_write (BackendRead chan addr) = False"
| "is_write (BackendWrite chan addr val) = True"

definition do_call ::
  "rshim_consts \<Rightarrow> 'h pci_ops \<Rightarrow> rshim_pcie \<Rightarrow> 'h \<Rightarrow> call \<Rightarrow> (rshim_pcie \<times> 'h) option" where
  "do_call cs ops dev h c =
     (case c of
        BackendRead chan addr \<Rightarrow> do {
          (rc, result, dev, h) \<leftarrow> rshim_pcie_read cs ops dev h chan addr 0;
          Some (dev, h)
        }
      | BackendWrite chan addr val \<Rightarrow> do {
          (rc, dev, h) \<leftarrow> rshim_pcie_write cs ops dev h chan addr val;
          Some (dev, h)
        })"

fun run_calls ::
  "rshim_consts \<Rightarrow> 'h pci_ops \<Rightarrow> rshim_pcie \<Rightarrow> 'h \<Rightarrow> call list \<Rightarrow> (rshim_pcie \<times> 'h) option" where
  "run_calls cs ops dev h [] = Some (dev, h)"
| "run_calls cs ops dev h (c # calls) =
     do {
       (dev, h) \<leftarrow> do_call cs ops dev h c;
       run_calls cs ops dev h calls
     }"

text \<open>
  The write itself, lines 461--466, without the throttle before it: routed by the
  offset, with the backend object \<open>dev\<close> handed through.
\<close>

definition issue_write ::
  "rshim_consts \<Rightarrow> 'h pci_ops \<Rightarrow> rshim_pcie \<Rightarrow> 'h \<Rightarrow> u32 \<Rightarrow> u32 \<Rightarrow> u64
   \<Rightarrow> (int \<times> rshim_pcie \<times> 'h) option" where
  "issue_write cs ops dev h chan addr val =
     do {
       (rc, h) \<leftarrow>
         (if addr = RSH_BOOT_FIFO_DATA cs
          then rshim_boot_fifo_write cs ops (device_id dev) h (RSH_CHANNEL_BASE cs chan + addr) val
          else rshim_byte_acc_write cs ops (device_id dev) h (RSH_CHANNEL_BASE cs chan + addr) val);
       Some (rc, dev, h)
     }"

text \<open>A write that starts with the drain read of the scratch register.\<close>

definition drain_then_write ::
  "rshim_consts \<Rightarrow> 'h pci_ops \<Rightarrow> rshim_pcie \<Rightarrow> 'h \<Rightarrow> u32 \<Rightarrow> u32 \<Rightarrow> u64
   \<Rightarrow> (int \<times> rshim_pcie \<times> 'h) option" where
  "drain_then_write cs ops dev h chan addr val =
     do {
       (rc, result, dev, h) \<leftarrow> rshim_pcie_read cs ops dev h chan (RSH_SCRATCHPAD cs) 0;
       issue_write cs ops (dev\<lparr>write_count := write_count dev + 1\<rparr>) h chan addr val
     }"

text \<open>
  What holds of the backend object of a device \<open>did\<close> between two calls: it is usable,
  it still names the device, its write counter is between 0 and 7, and it is 0 on
  every device but BlueField-1.
\<close>

definition backend_ok :: "u16 \<Rightarrow> rshim_pcie \<Rightarrow> bool" where
  "backend_ok did dev =
     (has_rshim dev \<and> device_id dev = did \<and> unat (write_count dev) \<le> 7 \<and>
      (did \<noteq> BLUEFIELD1_DEVICE_ID \<longrightarrow> write_count dev = 0))"

text \<open>
  A device without faults for the long runs: every write succeeds, every register reads
  0, and the state counts the transactions.
\<close>

definition quiet_ops :: "nat pci_ops" where
  "quiet_ops =
     \<lparr>pci_write_long = (\<lambda>n pos v. (0, Suc n)), pci_read_long = (\<lambda>n pos. (0, Suc n))\<rparr>"

section \<open>A simulated register file\<close>

text \<open>
  Modelled from the spec: the simulated hardware register file of the round-trip
  property (spec section 8), which the repository does not contain. It follows the
  protocol of spec sections 4.1 to 4.4. The Byte Access Widget is a pointer
  \<open>w_addr\<close>, a control word \<open>w_ctl\<close> and the register file \<open>w_regs\<close> of 32-bit words by
  address: a write to \<open>ACC_WDAT\<close> under the 4-byte size control stores at the pointer and
  advances it by 4, a read of \<open>ACC_RDAT\<close> under read-trigger plus size control loads
  from the pointer and advances it, the control register reads back with the pending
  bit clear (every access completes at once), the interlock always reads ready. The
  boot FIFO keeps what is pushed into it and cannot be read. \<open>at\<close> gives the address
  under which the device sees a widget register.
\<close>

record widget =
  w_addr :: u32
  w_ctl :: u32
  w_regs :: "u32 \<Rightarrow> u32"
  w_fifo :: "u32 list"

definition widget_write :: "rshim_consts \<Rightarrow> (u32 \<Rightarrow> u32) \<Rightarrow> widget \<Rightarrow> u32 \<Rightarrow> u32 \<Rightarrow> widget" where
  "widget_write cs at w x v =
     (if x = at (RSH_BYTE_ACC_ADDR cs) then w\<lparr>w_addr := v\<rparr>
      else if x = at (RSH_BYTE_ACC_CTL cs) then w\<lparr>w_ctl := v\<rparr>
      else if x = at (RSH_BYTE_ACC_WDAT cs) then
        (if w_ctl w = RSH_BYTE_ACC_SIZE_4BYTE cs
         then w\<lparr>w_regs := (w_regs w)(w_addr w := v), w_addr := w_addr w + 4\<rparr>
         else w)
      else if x = at (RSH_BYTE_ACC_INTERLOCK cs) then w
      else if x AND 0xffff = RSH_BOOT_FIFO_DATA cs then w\<lparr>w_fifo := w_fifo w @ [v]\<rparr>
      else w)"

definition widget_read :: "rshim_consts \<Rightarrow> (u32 \<Rightarrow> u32) \<Rightarrow> widget \<Rightarrow> u32 \<Rightarrow> u32 \<times> widget" where
  "widget_read cs at w x =
     (if x = at (RSH_BYTE_ACC_CTL cs) then (w_ctl w AND NOT (RSH_BYTE_ACC_PENDING cs), w)
      else if x = at (RSH_BYTE_ACC_RDAT cs) then
        (if w_ctl w = RSH_BYTE_ACC_READ_TRIGGER cs OR RSH_BYTE_ACC_SIZE_4BYTE cs
         then (w_regs w (w_addr w), w\<lparr>w_addr := w_addr w + 4\<rparr>)
         else (0, w))
      else if x = at (RSH_BYTE_ACC_INTERLOCK cs) then (1, w)
      else (0, w))"

text \<open>
  Modelled from the spec: the device behind the capability (spec 4.1 to 4.3). A write
  to the data register stages a word. A write to the address register with the read
  bit (bit 0) set loads the data register from the CR-space address; with the bit
  clear it stores the staged word there. On the newer revision the CR space holds the
  window of the widget's registers. On the legacy revision it holds the gateway: lock,
  data, control and address registers, and a write of the trigger pattern to the lock
  register carries out the 4-byte read or write that the control register selects,
  with the data register in network byte order.
\<close>

record sim_dev =
  cap_data :: u32
  gw_lock :: u32
  gw_data :: u32
  gw_ctl :: u32
  gw_addr :: u32
  baw :: widget

definition window_at :: "u32 \<Rightarrow> u32" where
  "window_at reg = (reg AND 0xffff) + CRSPACE_RSH_CHANNEL1_BASE"

definition gateway_at :: "rshim_consts \<Rightarrow> u32 \<Rightarrow> u32" where
  "gateway_at cs reg = reg + RSH_CHANNEL_BASE cs (RSHIM_CHANNEL cs)"

definition regfile_bf2 :: "rshim_consts \<Rightarrow> sim_dev pci_ops" where
  "regfile_bf2 cs =
     \<lparr>pci_write_long = (\<lambda>s pos v.
        if pos = MELLANOX_DATA then (0, s\<lparr>cap_data := v\<rparr>)
        else if pos = MELLANOX_ADDR then
          (if bit v 0 then
             (case widget_read cs window_at (baw s) (v - 1) of
                (d, w) \<Rightarrow> (0, s\<lparr>cap_data := d, baw := w\<rparr>))
           else (0, s\<lparr>baw := widget_write cs window_at (baw s) v (cap_data s)\<rparr>))
        else (0, s)),
      pci_read_long = (\<lambda>s pos. if pos = MELLANOX_DATA then (cap_data s, s) else (0, s))\<rparr>"

definition gw_fire :: "rshim_consts \<Rightarrow> sim_dev \<Rightarrow> sim_dev" where
  "gw_fire cs s =
     (if gw_ctl s = TRIO_CR_GW_READ_4BYTE then
        (case widget_read cs (gateway_at cs) (baw s) (gw_addr s) of
           (d, w) \<Rightarrow> s\<lparr>gw_data := htonl d, baw := w\<rparr>)
      else if gw_ctl s = TRIO_CR_GW_WRITE_4BYTE then
        s\<lparr>baw := widget_write cs (gateway_at cs) (baw s) (gw_addr s) (ntohl (gw_data s))\<rparr>
      else s)"

definition cr_write :: "rshim_consts \<Rightarrow> sim_dev \<Rightarrow> u32 \<Rightarrow> u32 \<Rightarrow> sim_dev" where
  "cr_write cs s a v =
     (if a = TRIO_CR_GW_LOCK then (if v = TRIO_CR_GW_TRIGGER then gw_fire cs s else s\<lparr>gw_lock := v\<rparr>)
      else if a = TRIO_CR_GW_DATA_LOWER then s\<lparr>gw_data := v\<rparr>
      else if a = TRIO_CR_GW_CTL then s\<lparr>gw_ctl := v\<rparr>
      else if a = TRIO_CR_GW_ADDR_LOWER then s\<lparr>gw_addr := v\<rparr>
      else s)"

definition cr_read :: "sim_dev \<Rightarrow> u32 \<Rightarrow> u32" where
  "cr_read s a =
     (if a = TRIO_CR_GW_LOCK then gw_lock s
      else if a = TRIO_CR_GW_DATA_LOWER then gw_data s
      else 0)"

definition regfile_bf1 :: "rshim_consts \<Rightarrow> sim_dev pci_ops" where
  "regfile_bf1 cs =
     \<lparr>pci_write_long = (\<lambda>s pos v.
        if pos = MELLANOX_DATA then (0, s\<lparr>cap_data := v\<rparr>)
        else if pos = MELLANOX_ADDR then
          (if bit v 0 then (0, s\<lparr>cap_data := cr_read s (v - 1)\<rparr>)
           else (0, cr_write cs s v (cap_data s)))
        else (0, s)),
      pci_read_long = (\<lambda>s pos. if pos = MELLANOX_DATA then (cap_data s, s) else (0, s))\<rparr>"

definition regfile_ops :: "rshim_consts \<Rightarrow> u16 \<Rightarrow> sim_dev pci_ops" where
  "regfile_ops cs did = (if did = BLUEFIELD2_DEVICE_ID then regfile_bf2 cs else regfile_bf1 cs)"




text \<open>A simulated device at rest: nothing staged, the gateway lock free, every register 0.\<close>

definition sim_idle :: sim_dev where
  "sim_idle =
     \<lparr>cap_data = 0, gw_lock = 0, gw_data = 0, gw_ctl = 0, gw_addr = 0,
      baw = \<lparr>w_addr = 0, w_ctl = 0, w_regs = (\<lambda>a. 0), w_fifo = []\<rparr>\<rparr>"

text \<open>A write followed by a read of the same location: both return codes and the value read.\<close>

definition write_then_read ::
  "rshim_consts \<Rightarrow> 'h pci_ops \<Rightarrow> rshim_pcie \<Rightarrow> 'h \<Rightarrow> u32 \<Rightarrow> u32 \<Rightarrow> u64 \<Rightarrow> u64
   \<Rightarrow> (int \<times> int \<times> u64) option" where
  "write_then_read cs ops dev h chan addr val r =
     do {
       (rc_w, dev, h) \<leftarrow> rshim_pcie_write cs ops dev h chan addr val;
       (rc_r, result, dev, h) \<leftarrow> rshim_pcie_read cs ops dev h chan addr r;
       Some (rc_w, rc_r, result)
     }"

section \<open>The capability read\<close>

text \<open>
  C8, as the code has it. \<^verbatim>\<open>pci_cap_read\<close> first writes the offset with the read bit set
  to \<^verbatim>\<open>MELLANOX_ADDR\<close>. If that write returns a negative code, the code is returned,
  the caller's result is left alone and nothing else is sent. Otherwise the data
  register \<^verbatim>\<open>MELLANOX_DATA\<close> is read next and the call returns 0 with the value read,
  whatever the read did: \<^verbatim>\<open>pci_read_long\<close> has no error return to check.
\<close>

theorem pci_cap_read_order_and_errors:
  "case pci_write_long ops h MELLANOX_ADDR (offset OR MELLANOX_CAP_READ) of (rc, h1) \<Rightarrow>
     (rc < 0 \<longrightarrow>
        pci_cap_read (logged ops) (h, []) offset result =
          (rc, result, (h1, [PciWrite MELLANOX_ADDR (offset OR MELLANOX_CAP_READ) rc]))) \<and>
     (0 \<le> rc \<longrightarrow>
        (case pci_read_long ops h1 MELLANOX_DATA of (v, h2) \<Rightarrow>
           pci_cap_read (logged ops) (h, []) offset result =
             (0, v, (h2, [PciWrite MELLANOX_ADDR (offset OR MELLANOX_CAP_READ) rc,
                          PciRead MELLANOX_DATA v]))))"
  by (simp add: pci_cap_read_def logged_def split: prod.splits)

theorem pci_cap_read_order_and_errors_witness:
  "pci_cap_read (logged sim_ops) (sim_start [-5] [] 7, []) 0x100 9 =
     (-5, 9, (\<lparr>write_rcs = [], read_vals = [], idle_val = 7, failed_reads = 0,
                bus_log = [PciWrite 0x58 0x101 (-5)]\<rparr>, [PciWrite 0x58 0x101 (-5)]))
   \<and> pci_cap_read (logged sim_ops) (sim_start [] [] 7, []) 0x100 9 =
     (0, 7, (\<lparr>write_rcs = [], read_vals = [], idle_val = 7, failed_reads = 0,
               bus_log = [PciWrite 0x58 0x101 0, PciRead 0x5c 7]\<rparr>,
             [PciWrite 0x58 0x101 0, PciRead 0x5c 7]))"
  using pci_cap_read_order_and_errors [of sim_ops "sim_start [-5] [] 7" "0x100" 9]
        pci_cap_read_order_and_errors [of sim_ops "sim_start [] [] 7" "0x100" 9]
  by (simp add: sim_ops_def sim_start_def sim_write_long_def sim_read_long_def
        MELLANOX_ADDR_def MELLANOX_DATA_def MELLANOX_CAP_READ_def)

text \<open>
  C8 as stated fails where the data-register read is the transaction that fails: the
  scripted bus below fails that read (\<open>failed_reads = 1\<close>) and \<^verbatim>\<open>pci_cap_read\<close> still
  returns 0, with the all-ones value as its result.
\<close>

theorem pci_cap_read_data_failure_counterexample:
  "pci_cap_read sim_ops (sim_start [] [None] 0) 0x100 0 =
     (0, 0xffffffff,
      \<lparr>write_rcs = [], read_vals = [], idle_val = 0, failed_reads = 1,
       bus_log = [PciWrite 0x58 0x101 0, PciRead 0x5c 0xffffffff]\<rparr>)"
  by (simp add: pci_cap_read_def sim_ops_def sim_start_def sim_write_long_def sim_read_long_def
        MELLANOX_ADDR_def MELLANOX_DATA_def MELLANOX_CAP_READ_def)

section \<open>Arithmetic of the retry counter\<close>

lemma unat_retry_succ:
  fixes retry cnt :: u32
  assumes "retry \<le> cnt" "cnt < 0x7fffffff"
  shows "unat (retry + 1) = unat retry + 1"
proof -
  have "unat retry \<le> unat cnt" using assms(1) by (simp add: word_le_nat_alt)
  moreover have "unat cnt < 2147483647" using assms(2) by (simp add: word_less_nat_alt)
  ultimately have "unat retry + 1 < 2 ^ 32" by simp
  then show ?thesis by (simp add: unat_word_ariths)
qed

lemma retry_gt_iff:
  fixes retry cnt :: u32
  assumes "retry \<le> cnt" "cnt < 0x7fffffff"
  shows "(retry + 1 > cnt) = (retry = cnt)"
proof -
  have "unat retry \<le> unat cnt" using assms(1) by (simp add: word_le_nat_alt)
  then show ?thesis
    using unat_retry_succ [OF assms]
    by (auto simp: word_less_nat_alt word_unat_eq_iff)
qed

lemma sint_small:
  fixes x :: u32
  assumes "x \<le> 0x7fffffff"
  shows "sint x = uint x"
proof -
  have "uint x \<le> 2147483647" using assms by (simp add: word_le_def)
  then have "uint x < 2 ^ 31" by simp
  moreover have "- (2 ^ 31) \<le> uint x" by (rule order_trans [of _ 0]) simp_all
  ultimately have "signed_take_bit 31 (uint x) = uint x"
    by (rule signed_take_bit_int_eq_self [rotated])
  then show ?thesis by (simp add: sint_uint)
qed

lemma retry_sless_iff:
  fixes retry cnt :: u32
  assumes "retry \<le> cnt" "cnt < 0x7fffffff"
  shows "(cnt <s retry + 1) = (retry = cnt)"
proof -
  have a: "unat retry \<le> unat cnt" using assms(1) by (simp add: word_le_nat_alt)
  have b: "unat cnt < 2147483647" using assms(2) by (simp add: word_less_nat_alt)
  have c: "unat (retry + 1) = unat retry + 1" by (rule unat_retry_succ [OF assms])
  have "cnt \<le> 0x7fffffff" using assms(2) by simp
  then have d: "sint cnt = int (unat cnt)" by (simp add: sint_small)
  have "retry + 1 \<le> 0x7fffffff" using a b c by (simp add: word_le_nat_alt)
  then have e: "sint (retry + 1) = int (unat (retry + 1))" by (simp add: sint_small)
  have "(cnt <s retry + 1) = (int (unat cnt) < int (unat retry + 1))"
    unfolding word_sless_alt d e c ..
  also have "\<dots> = (unat cnt < unat retry + 1)" by (simp only: of_nat_less_iff)
  also have "\<dots> = (unat retry = unat cnt)" using a by linarith
  also have "\<dots> = (retry = cnt)" by (simp only: word_unat_eq_iff)
  finally show ?thesis .
qed

section \<open>Calls that return\<close>

lemma returns_Some [simp]: "returns (Some x) P = P x"
  by (simp add: returns_def)

lemma returns_None [simp]: "returns None P = False"
  by (simp add: returns_def)

lemma returns_bind:
  assumes "returns m Q" "\<And>x. Q x \<Longrightarrow> returns (f x) P"
  shows "returns (Option.bind m f) P"
  using assms by (cases m) (auto simp: returns_def)

lemma returns_weaken:
  assumes "returns m Q" "\<And>x. Q x \<Longrightarrow> P x"
  shows "returns m P"
  using assms by (cases m) (auto simp: returns_def)

lemma returnsE:
  assumes "returns m P"
  obtains x where "m = Some x" "P x"
  using assms by (cases m) (auto simp: returns_def)

lemma rc_ok_simps [simp]: "rc_ok ops 0" "rc_ok ops (- ETIMEDOUT)"
  by (simp_all add: rc_ok_def ETIMEDOUT_def)

lemma pci_cap_read_ok: "pci_cap_read ops h off r = (rc, v, h') \<Longrightarrow> rc_ok ops rc"
  unfolding rc_ok_def writes_succeed_def pci_cap_read_def
  by (auto split: prod.splits if_splits) (metis fst_conv not_less)

lemma pci_cap_write_ok: "pci_cap_write ops h off v = (rc, h') \<Longrightarrow> rc_ok ops rc"
  unfolding rc_ok_def writes_succeed_def pci_cap_write_def
  by (auto split: prod.splits if_splits) (metis fst_conv not_less)+

section \<open>The gateway lock loop\<close>

lemma gw_lock_loop_returns:
  assumes bound: "LOCK_RETRY_CNT cs < 0x7fffffff" and le: "retry \<le> LOCK_RETRY_CNT cs"
  shows "returns (trio_cr_gw_lock_acquire_loop cs ops retry rv h) (\<lambda>(rc, n, h').
           unat retry \<le> unat n \<and> unat n \<le> unat (LOCK_RETRY_CNT cs) + 1
           \<and> (unat n = unat (LOCK_RETRY_CNT cs) + 1 \<longrightarrow> rc = - ETIMEDOUT)
           \<and> rc_ok ops rc)"
  using le
proof (induction "unat (LOCK_RETRY_CNT cs) - unat retry" arbitrary: retry rv h rule: less_induct)
  case less
  note le = \<open>retry \<le> LOCK_RETRY_CNT cs\<close>
  have ule: "unat retry \<le> unat (LOCK_RETRY_CNT cs)" using le by (simp add: word_le_nat_alt)
  have succ: "unat (retry + 1) = unat retry + 1" by (rule unat_retry_succ [OF le bound])
  obtain rc rv' h1 where r: "pci_cap_read ops h TRIO_CR_GW_LOCK rv = (rc, rv', h1)"
    by (cases "pci_cap_read ops h TRIO_CR_GW_LOCK rv") auto
  note rc = pci_cap_read_ok [OF r]
  show ?case
  proof (cases "rc \<noteq> 0")
    case True
    then show ?thesis
      using r ule rc
      by (subst trio_cr_gw_lock_acquire_loop.simps) auto
  next
    case rc0: False
    show ?thesis
    proof (cases "retry = LOCK_RETRY_CNT cs")
      case True
      then have "retry + 1 > LOCK_RETRY_CNT cs" using retry_gt_iff [OF le bound] by simp
      then show ?thesis
        using r rc0 succ True
        by (subst trio_cr_gw_lock_acquire_loop.simps) (auto simp: Let_def)
    next
      case ne: False
      then have ngt: "\<not> retry + 1 > LOCK_RETRY_CNT cs" using retry_gt_iff [OF le bound] by simp
      then have le': "retry + 1 \<le> LOCK_RETRY_CNT cs" by simp
      have ule': "unat retry + 1 \<le> unat (LOCK_RETRY_CNT cs)"
        using le' succ by (simp add: word_le_nat_alt)
      show ?thesis
      proof (cases "rv' AND TRIO_CR_GW_LOCK_ACQUIRED \<noteq> 0")
        case True
        have "unat (LOCK_RETRY_CNT cs) - unat (retry + 1) < unat (LOCK_RETRY_CNT cs) - unat retry"
          using ule' succ by simp
        from less.hyps [OF this le', of rv' h1]
        show ?thesis
          using r rc0 ngt True succ
          by (subst trio_cr_gw_lock_acquire_loop.simps)
             (auto simp: Let_def elim!: returns_weaken)
      next
        case False
        obtain rc3 h3 where w: "pci_cap_write ops h1 TRIO_CR_GW_LOCK TRIO_CR_GW_LOCK_ACQUIRED = (rc3, h3)"
          by (cases "pci_cap_write ops h1 TRIO_CR_GW_LOCK TRIO_CR_GW_LOCK_ACQUIRED") auto
        note rc3 = pci_cap_write_ok [OF w]
        show ?thesis
          using r rc0 ngt False w succ ule' rc3
          by (subst trio_cr_gw_lock_acquire_loop.simps) (auto simp: Let_def)
      qed
    qed
  qed
qed

lemma trio_cr_gw_lock_acquire_returns:
  assumes "LOCK_RETRY_CNT cs < 0x7fffffff"
  shows "returns (trio_cr_gw_lock_acquire cs ops h) (\<lambda>(rc, h'). rc_ok ops rc)"
  unfolding trio_cr_gw_lock_acquire_def
  by (rule returns_bind [OF gw_lock_loop_returns [OF assms]]) auto

lemma crspace_rsh_gw_read_returns:
  assumes "LOCK_RETRY_CNT cs < 0x7fffffff"
  shows "returns (crspace_rsh_gw_read cs ops did h addr r) (\<lambda>(rc, v, h'). rc_ok ops rc)"
  unfolding crspace_rsh_gw_read_def trio_cr_gw_lock_release_def Let_def
  by (auto intro!: returns_bind [OF trio_cr_gw_lock_acquire_returns [OF assms]]
        dest: pci_cap_read_ok pci_cap_write_ok split: prod.splits)

lemma crspace_rsh_gw_write_returns:
  assumes "LOCK_RETRY_CNT cs < 0x7fffffff"
  shows "returns (crspace_rsh_gw_write cs ops did h addr v) (\<lambda>(rc, h'). rc_ok ops rc)"
  unfolding crspace_rsh_gw_write_def trio_cr_gw_lock_release_def Let_def
  by (auto intro!: returns_bind [OF trio_cr_gw_lock_acquire_returns [OF assms]]
        dest: pci_cap_write_ok split: prod.splits)

section \<open>The widget's polling loops\<close>

lemma pending_wait_loop_returns:
  assumes bound: "LOCK_RETRY_CNT cs < 0x7fffffff" and le: "retry \<le> LOCK_RETRY_CNT cs"
  shows "returns (rshim_byte_acc_pending_wait_loop cs ops did retry rv h) (\<lambda>(rc, n, h').
           unat retry \<le> unat n \<and> unat n \<le> unat (LOCK_RETRY_CNT cs) + 1
           \<and> (unat n = unat (LOCK_RETRY_CNT cs) + 1 \<longrightarrow> rc = - ETIMEDOUT)
           \<and> rc_ok ops rc)"
  using le
proof (induction "unat (LOCK_RETRY_CNT cs) - unat retry" arbitrary: retry rv h rule: less_induct)
  case less
  note le = \<open>retry \<le> LOCK_RETRY_CNT cs\<close>
  have ule: "unat retry \<le> unat (LOCK_RETRY_CNT cs)" using le by (simp add: word_le_nat_alt)
  have succ: "unat (retry + 1) = unat retry + 1" by (rule unat_retry_succ [OF le bound])
  obtain rc rv' h1 where
    r: "crspace_rsh_gw_read cs ops did h (RSH_BYTE_ACC_CTL cs) rv = Some (rc, rv', h1)"
    and rc: "rc_ok ops rc"
    using crspace_rsh_gw_read_returns [OF bound, of ops did h "RSH_BYTE_ACC_CTL cs" rv]
    by (auto elim!: returnsE)
  show ?case
  proof (cases "rc \<noteq> 0")
    case True
    then show ?thesis
      using r ule rc
      by (subst rshim_byte_acc_pending_wait_loop.simps) auto
  next
    case rc0: False
    show ?thesis
    proof (cases "retry = LOCK_RETRY_CNT cs")
      case True
      then have "retry + 1 > LOCK_RETRY_CNT cs" using retry_gt_iff [OF le bound] by simp
      then show ?thesis
        using r rc0 succ True
        by (subst rshim_byte_acc_pending_wait_loop.simps) (auto simp: Let_def)
    next
      case ne: False
      then have ngt: "\<not> retry + 1 > LOCK_RETRY_CNT cs" using retry_gt_iff [OF le bound] by simp
      then have le': "retry + 1 \<le> LOCK_RETRY_CNT cs" by simp
      have ule': "unat retry + 1 \<le> unat (LOCK_RETRY_CNT cs)"
        using le' succ by (simp add: word_le_nat_alt)
      have "unat (LOCK_RETRY_CNT cs) - unat (retry + 1) < unat (LOCK_RETRY_CNT cs) - unat retry"
        using ule' succ by simp
      from less.hyps [OF this le', of rv' h1]
      show ?thesis
        using r rc0 ngt succ ule'
        by (subst rshim_byte_acc_pending_wait_loop.simps)
           (auto simp: Let_def elim!: returns_weaken)
    qed
  qed
qed

lemma lock_acquire_loop_returns:
  assumes bound: "LOCK_RETRY_CNT cs < 0x7fffffff" and le: "retry \<le> LOCK_RETRY_CNT cs"
  shows "returns (rshim_byte_acc_lock_acquire_loop cs ops did retry rv h) (\<lambda>(rc, n, h').
           unat retry \<le> unat n \<and> unat n \<le> unat (LOCK_RETRY_CNT cs) + 1
           \<and> (unat n = unat (LOCK_RETRY_CNT cs) + 1 \<longrightarrow> rc = - ETIMEDOUT)
           \<and> rc_ok ops rc)"
  using le
proof (induction "unat (LOCK_RETRY_CNT cs) - unat retry" arbitrary: retry rv h rule: less_induct)
  case less
  note le = \<open>retry \<le> LOCK_RETRY_CNT cs\<close>
  have ule: "unat retry \<le> unat (LOCK_RETRY_CNT cs)" using le by (simp add: word_le_nat_alt)
  have succ: "unat (retry + 1) = unat retry + 1" by (rule unat_retry_succ [OF le bound])
  show ?case
  proof (cases "retry = LOCK_RETRY_CNT cs")
    case True
    then have "LOCK_RETRY_CNT cs <s retry + 1" using retry_sless_iff [OF le bound] by simp
    then show ?thesis
      using succ True
      by (subst rshim_byte_acc_lock_acquire_loop.simps) (auto simp: Let_def)
  next
    case ne: False
    then have ngt: "\<not> LOCK_RETRY_CNT cs <s retry + 1" using retry_sless_iff [OF le bound] by simp
    from ne have "\<not> retry + 1 > LOCK_RETRY_CNT cs" using retry_gt_iff [OF le bound] by simp
    then have le': "retry + 1 \<le> LOCK_RETRY_CNT cs" by simp
    have ule': "unat retry + 1 \<le> unat (LOCK_RETRY_CNT cs)"
      using le' succ by (simp add: word_le_nat_alt)
    obtain rc rv' h1 where
      r: "crspace_rsh_gw_read cs ops did h (RSH_BYTE_ACC_INTERLOCK cs) rv = Some (rc, rv', h1)"
      and rc: "rc_ok ops rc"
      using crspace_rsh_gw_read_returns [OF bound, of ops did h "RSH_BYTE_ACC_INTERLOCK cs" rv]
      by (auto elim!: returnsE)
    have "unat (LOCK_RETRY_CNT cs) - unat (retry + 1) < unat (LOCK_RETRY_CNT cs) - unat retry"
      using ule' succ by simp
    from less.hyps [OF this le', of rv' h1]
    show ?thesis
      using r rc ngt succ ule'
      by (subst rshim_byte_acc_lock_acquire_loop.simps)
         (auto simp: Let_def elim!: returns_weaken)
  qed
qed

lemma rshim_byte_acc_pending_wait_returns:
  assumes "LOCK_RETRY_CNT cs < 0x7fffffff"
  shows "returns (rshim_byte_acc_pending_wait cs ops did h) (\<lambda>(rc, h'). rc_ok ops rc)"
  unfolding rshim_byte_acc_pending_wait_def
  by (rule returns_bind [OF pending_wait_loop_returns [OF assms]]) auto

lemma rshim_byte_acc_lock_acquire_returns:
  assumes "LOCK_RETRY_CNT cs < 0x7fffffff"
  shows "returns (rshim_byte_acc_lock_acquire cs ops did h) (\<lambda>(rc, h'). rc_ok ops rc)"
  unfolding rshim_byte_acc_lock_acquire_def
  by (rule returns_bind [OF lock_acquire_loop_returns [OF assms]]) auto

lemma rshim_byte_acc_lock_release_returns:
  assumes "LOCK_RETRY_CNT cs < 0x7fffffff"
  shows "returns (rshim_byte_acc_lock_release cs ops did h) (\<lambda>(rc, h'). rc_ok ops rc)"
  unfolding rshim_byte_acc_lock_release_def
  by (rule crspace_rsh_gw_write_returns [OF assms])

lemma exit_read_returns:
  assumes "LOCK_RETRY_CNT cs < 0x7fffffff" "rc_ok ops rc"
  shows "returns (exit_read cs ops did h rc result) (\<lambda>(rc, v, h'). rc_ok ops rc)"
  unfolding exit_read_def using assms(2)
  by (auto intro!: returns_bind [OF rshim_byte_acc_lock_release_returns [OF assms(1)]])

lemma exit_write_returns:
  assumes "LOCK_RETRY_CNT cs < 0x7fffffff" "rc_ok ops rc"
  shows "returns (exit_write cs ops did h rc) (\<lambda>(rc, h'). rc_ok ops rc)"
  unfolding exit_write_def using assms(2)
  by (auto intro!: rshim_byte_acc_lock_release_returns [OF assms(1)])

lemma rshim_byte_acc_read_body_returns:
  assumes b: "LOCK_RETRY_CNT cs < 0x7fffffff"
  shows "returns (rshim_byte_acc_read_body cs ops did h addr result) (\<lambda>(rc, v, h'). rc_ok ops rc)"
  unfolding rshim_byte_acc_read_body_def Let_def
  by (auto intro!: returns_bind [OF crspace_rsh_gw_write_returns [OF b]]
                   returns_bind [OF crspace_rsh_gw_read_returns [OF b]]
                   returns_bind [OF rshim_byte_acc_pending_wait_returns [OF b]]
                   exit_read_returns [OF b])

lemma rshim_byte_acc_read_returns:
  assumes b: "LOCK_RETRY_CNT cs < 0x7fffffff"
  shows "returns (rshim_byte_acc_read cs ops did h addr result) (\<lambda>(rc, v, h'). rc_ok ops rc)"
  unfolding rshim_byte_acc_read_def
  by (auto intro!: returns_bind [OF rshim_byte_acc_pending_wait_returns [OF b]]
                   returns_bind [OF rshim_byte_acc_lock_acquire_returns [OF b]]
                   rshim_byte_acc_read_body_returns [OF b])

lemma rshim_byte_acc_write_body_returns:
  assumes b: "LOCK_RETRY_CNT cs < 0x7fffffff"
  shows "returns (rshim_byte_acc_write_body cs ops did h addr v) (\<lambda>(rc, h'). rc_ok ops rc)"
  unfolding rshim_byte_acc_write_body_def
  by (auto intro!: returns_bind [OF crspace_rsh_gw_write_returns [OF b]]
                   returns_bind [OF rshim_byte_acc_pending_wait_returns [OF b]]
                   exit_write_returns [OF b])

lemma rshim_byte_acc_write_returns:
  assumes b: "LOCK_RETRY_CNT cs < 0x7fffffff"
  shows "returns (rshim_byte_acc_write cs ops did h addr v) (\<lambda>(rc, h'). rc_ok ops rc)"
  unfolding rshim_byte_acc_write_def
  by (auto intro!: returns_bind [OF rshim_byte_acc_lock_acquire_returns [OF b]]
                   rshim_byte_acc_write_body_returns [OF b])

lemma rshim_boot_fifo_write_returns:
  assumes b: "LOCK_RETRY_CNT cs < 0x7fffffff"
  shows "returns (rshim_boot_fifo_write cs ops did h addr v) (\<lambda>(rc, h'). rc_ok ops rc)"
  unfolding rshim_boot_fifo_write_def
  by (auto intro!: returns_bind [OF crspace_rsh_gw_write_returns [OF b]])

section \<open>Termination of the polling loops\<close>

text \<open>
  C6. With a retry bound below \<^verbatim>\<open>INT_MAX\<close>, each of the three polling loops (gateway
  lock acquire, pending-bit wait, interlock acquire) returns, whatever the device
  answers: the loop body is entered at most \<^verbatim>\<open>LOCK_RETRY_CNT + 1\<close> times, the entry
  that exceeds the bound returns \<^verbatim>\<open>-ETIMEDOUT\<close>, and on a device whose writes succeed
  the result is success or \<^verbatim>\<open>-ETIMEDOUT\<close>. \<open>n\<close> is the last value of \<^verbatim>\<open>retry\<close>.
\<close>

theorem polling_loops_terminate:
  assumes "LOCK_RETRY_CNT cs < 0x7fffffff"
  shows "(\<exists>rc n h'. trio_cr_gw_lock_acquire_loop cs ops 0 rv h = Some (rc, n, h')
            \<and> unat n \<le> unat (LOCK_RETRY_CNT cs) + 1
            \<and> (unat n = unat (LOCK_RETRY_CNT cs) + 1 \<longrightarrow> rc = - ETIMEDOUT)
            \<and> rc \<le> 0 \<and> (writes_succeed ops \<longrightarrow> rc = 0 \<or> rc = - ETIMEDOUT))
       \<and> (\<exists>rc n h'. rshim_byte_acc_pending_wait_loop cs ops did 0 rv h = Some (rc, n, h')
            \<and> unat n \<le> unat (LOCK_RETRY_CNT cs) + 1
            \<and> (unat n = unat (LOCK_RETRY_CNT cs) + 1 \<longrightarrow> rc = - ETIMEDOUT)
            \<and> rc \<le> 0 \<and> (writes_succeed ops \<longrightarrow> rc = 0 \<or> rc = - ETIMEDOUT))
       \<and> (\<exists>rc n h'. rshim_byte_acc_lock_acquire_loop cs ops did 0 rv h = Some (rc, n, h')
            \<and> unat n \<le> unat (LOCK_RETRY_CNT cs) + 1
            \<and> (unat n = unat (LOCK_RETRY_CNT cs) + 1 \<longrightarrow> rc = - ETIMEDOUT)
            \<and> rc \<le> 0 \<and> (writes_succeed ops \<longrightarrow> rc = 0 \<or> rc = - ETIMEDOUT))"
proof (intro conjI)
  have z: "(0 :: u32) \<le> LOCK_RETRY_CNT cs" by simp
  show "\<exists>rc n h'. trio_cr_gw_lock_acquire_loop cs ops 0 rv h = Some (rc, n, h')
            \<and> unat n \<le> unat (LOCK_RETRY_CNT cs) + 1
            \<and> (unat n = unat (LOCK_RETRY_CNT cs) + 1 \<longrightarrow> rc = - ETIMEDOUT)
            \<and> rc \<le> 0 \<and> (writes_succeed ops \<longrightarrow> rc = 0 \<or> rc = - ETIMEDOUT)"
    using gw_lock_loop_returns [OF assms z, of ops rv h]
    by (auto elim!: returnsE simp: rc_ok_def)
  show "\<exists>rc n h'. rshim_byte_acc_pending_wait_loop cs ops did 0 rv h = Some (rc, n, h')
            \<and> unat n \<le> unat (LOCK_RETRY_CNT cs) + 1
            \<and> (unat n = unat (LOCK_RETRY_CNT cs) + 1 \<longrightarrow> rc = - ETIMEDOUT)
            \<and> rc \<le> 0 \<and> (writes_succeed ops \<longrightarrow> rc = 0 \<or> rc = - ETIMEDOUT)"
    using pending_wait_loop_returns [OF assms z, of ops did rv h]
    by (auto elim!: returnsE simp: rc_ok_def)
  show "\<exists>rc n h'. rshim_byte_acc_lock_acquire_loop cs ops did 0 rv h = Some (rc, n, h')
            \<and> unat n \<le> unat (LOCK_RETRY_CNT cs) + 1
            \<and> (unat n = unat (LOCK_RETRY_CNT cs) + 1 \<longrightarrow> rc = - ETIMEDOUT)
            \<and> rc \<le> 0 \<and> (writes_succeed ops \<longrightarrow> rc = 0 \<or> rc = - ETIMEDOUT)"
    using lock_acquire_loop_returns [OF assms z, of ops did rv h]
    by (auto elim!: returnsE simp: rc_ok_def)
qed

text \<open>
  A register that never clears its busy and pending bits and never shows the ready
  bit: with the bound 3 each loop gives up in its fourth pass.
\<close>

lemma stuck_gateway_lock:
  "map_option (\<lambda>(rc, n, h). (rc, n, bus_log h))
     (trio_cr_gw_lock_acquire_loop test_consts sim_ops 0 0 (sim_start [] [] 0xa0000000))
   = Some (- ETIMEDOUT, 4,
       [PciWrite 0x58 0xe38a1 0, PciRead 0x5c 0xa0000000,
        PciWrite 0x58 0xe38a1 0, PciRead 0x5c 0xa0000000,
        PciWrite 0x58 0xe38a1 0, PciRead 0x5c 0xa0000000,
        PciWrite 0x58 0xe38a1 0, PciRead 0x5c 0xa0000000])"
  by code_simp

lemma stuck_pending_bit:
  "map_option (\<lambda>(rc, n, h). (rc, n, bus_log h))
     (rshim_byte_acc_pending_wait_loop test_consts sim_ops BLUEFIELD2_DEVICE_ID 0 0
        (sim_start [] [] 0xa0000000))
   = Some (- ETIMEDOUT, 4,
       [PciWrite 0x58 0x310491 0, PciRead 0x5c 0xa0000000,
        PciWrite 0x58 0x310491 0, PciRead 0x5c 0xa0000000,
        PciWrite 0x58 0x310491 0, PciRead 0x5c 0xa0000000,
        PciWrite 0x58 0x310491 0, PciRead 0x5c 0xa0000000])"
  by code_simp

lemma stuck_interlock:
  "map_option (\<lambda>(rc, n, h). (rc, n, bus_log h))
     (rshim_byte_acc_lock_acquire_loop test_consts sim_ops BLUEFIELD2_DEVICE_ID 0 0
        (sim_start [] [] 0xa0000000))
   = Some (- ETIMEDOUT, 4,
       [PciWrite 0x58 0x3104b1 0, PciRead 0x5c 0xa0000000,
        PciWrite 0x58 0x3104b1 0, PciRead 0x5c 0xa0000000,
        PciWrite 0x58 0x3104b1 0, PciRead 0x5c 0xa0000000])"
  by code_simp

theorem polling_loops_terminate_witness:
  "LOCK_RETRY_CNT test_consts < 0x7fffffff
   \<and> (\<exists>rc n h'. trio_cr_gw_lock_acquire_loop test_consts sim_ops 0 0
                   (sim_start [] [] 0xa0000000) = Some (rc, n, h')
          \<and> unat n \<le> unat (LOCK_RETRY_CNT test_consts) + 1 \<and> rc = - ETIMEDOUT \<and> n = 4)
   \<and> (\<exists>rc n h'. rshim_byte_acc_pending_wait_loop test_consts sim_ops BLUEFIELD2_DEVICE_ID 0 0
                   (sim_start [] [] 0xa0000000) = Some (rc, n, h')
          \<and> unat n \<le> unat (LOCK_RETRY_CNT test_consts) + 1 \<and> rc = - ETIMEDOUT \<and> n = 4)
   \<and> (\<exists>rc n h'. rshim_byte_acc_lock_acquire_loop test_consts sim_ops BLUEFIELD2_DEVICE_ID 0 0
                   (sim_start [] [] 0xa0000000) = Some (rc, n, h')
          \<and> unat n \<le> unat (LOCK_RETRY_CNT test_consts) + 1 \<and> rc = - ETIMEDOUT \<and> n = 4)"
proof -
  have b: "LOCK_RETRY_CNT test_consts < 0x7fffffff" by (simp add: test_consts_def)
  note t = polling_loops_terminate
    [OF b, of sim_ops 0 "sim_start [] [] 0xa0000000" BLUEFIELD2_DEVICE_ID]
  from t obtain rc1 n1 h1 where
    1: "trio_cr_gw_lock_acquire_loop test_consts sim_ops 0 0 (sim_start [] [] 0xa0000000)
          = Some (rc1, n1, h1)"
       "unat n1 \<le> unat (LOCK_RETRY_CNT test_consts) + 1"
    by blast
  from t obtain rc2 n2 h2 where
    2: "rshim_byte_acc_pending_wait_loop test_consts sim_ops BLUEFIELD2_DEVICE_ID 0 0
          (sim_start [] [] 0xa0000000) = Some (rc2, n2, h2)"
       "unat n2 \<le> unat (LOCK_RETRY_CNT test_consts) + 1"
    by blast
  from t obtain rc3 n3 h3 where
    3: "rshim_byte_acc_lock_acquire_loop test_consts sim_ops BLUEFIELD2_DEVICE_ID 0 0
          (sim_start [] [] 0xa0000000) = Some (rc3, n3, h3)"
       "unat n3 \<le> unat (LOCK_RETRY_CNT test_consts) + 1"
    by blast
  have "rc1 = - ETIMEDOUT \<and> n1 = 4" using stuck_gateway_lock unfolding 1(1) by simp
  moreover have "rc2 = - ETIMEDOUT \<and> n2 = 4" using stuck_pending_bit unfolding 2(1) by simp
  moreover have "rc3 = - ETIMEDOUT \<and> n3 = 4" using stuck_interlock unfolding 3(1) by simp
  ultimately show ?thesis using b 1 2 3 by blast
qed

section \<open>Error exits and the hardware locks\<close>

text \<open>
  C2 at a failing input. BlueField-1, and a bus on which the fourth configuration
  write fails with -5. Both \<^verbatim>\<open>crspace_rsh_gw_read\<close> and \<^verbatim>\<open>crspace_rsh_gw_write\<close> poll the
  gateway lock (free), take it by writing \<^verbatim>\<open>0x80000000\<close> to \<^verbatim>\<open>0xe38a0\<close>, fail in the
  next step and return -5. The log ends at the failed write: the release, a write
  of 0 to \<^verbatim>\<open>0xe38a0\<close>, is never sent.
\<close>

theorem gateway_lock_not_released_on_error:
  "crspace_rsh_gw_read test_consts sim_ops BLUEFIELD1_DEVICE_ID
       (sim_start [0, 0, 0, -5] [] 0) 0x490 9 =
     Some (-5, 9,
       \<lparr>write_rcs = [], read_vals = [], idle_val = 0, failed_reads = 0,
        bus_log = [PciWrite 0x58 0xe38a1 0, PciRead 0x5c 0,
                   PciWrite 0x5c 0x80000000 0, PciWrite 0x58 0xe38a0 0,
                   PciWrite 0x5c 0x10490 (-5)]\<rparr>)
   \<and> crspace_rsh_gw_write test_consts sim_ops BLUEFIELD1_DEVICE_ID
       (sim_start [0, 0, 0, -5] [] 0) 0x498 0x11223344 =
     Some (-5,
       \<lparr>write_rcs = [], read_vals = [], idle_val = 0, failed_reads = 0,
        bus_log = [PciWrite 0x58 0xe38a1 0, PciRead 0x5c 0,
                   PciWrite 0x5c 0x80000000 0, PciWrite 0x58 0xe38a0 0,
                   PciWrite 0x5c 0x44332211 (-5)]\<rparr>)"
  by code_simp

text \<open>
  C3 at a failing input. BlueField-2, the interlock register reads ready, and the
  second configuration write fails: it is the write of the target address to
  \<^verbatim>\<open>RSH_BYTE_ACC_ADDR\<close>. \<^verbatim>\<open>rshim_byte_acc_write\<close> returns -5 at once (line 359) and
  the interlock release, a write of 0 to window offset \<^verbatim>\<open>0x3104b0\<close>, is never sent.
  \<^verbatim>\<open>rshim_byte_acc_read\<close> on the same bus, one poll later, goes through \<^verbatim>\<open>exit_read\<close>
  and does send it.
\<close>

theorem interlock_not_released_on_addr_error:
  "rshim_byte_acc_write test_consts sim_ops BLUEFIELD2_DEVICE_ID
       (sim_start [0, -5] [Some 1] 0) 0x10020 0x1122334455667788 =
     Some (-5,
       \<lparr>write_rcs = [], read_vals = [], idle_val = 0, failed_reads = 0,
        bus_log = [PciWrite 0x58 0x3104b1 0, PciRead 0x5c 1,
                   PciWrite 0x5c 0x10020 (-5)]\<rparr>)
   \<and> map_option (\<lambda>(rc, result, h). bus_log h)
       (rshim_byte_acc_read test_consts sim_ops BLUEFIELD2_DEVICE_ID
          (sim_start [0, 0, -5] [Some 0, Some 1] 0) 0x10020 9) =
     Some [PciWrite 0x58 0x310491 0, PciRead 0x5c 0,
           PciWrite 0x58 0x3104b1 0, PciRead 0x5c 1,
           PciWrite 0x5c 0x10020 (-5),
           PciWrite 0x5c 0 0, PciWrite 0x58 0x3104b0 0]"
  by code_simp

text \<open>
  C4 at a failing input. BlueField-2. In the read the pending bit stays set after the
  control write, so the second \<^verbatim>\<open>rshim_byte_acc_pending_wait\<close> gives \<^verbatim>\<open>-ETIMEDOUT\<close>; in
  the write the control write fails with -5. Both go to the exit label, where the
  return code of the interlock release is assigned to \<^verbatim>\<open>rc\<close>: the release succeeds
  and the call returns 0. The read leaves the caller's result (9) untouched.
\<close>

theorem interlock_release_replaces_first_error:
  "rshim_byte_acc_read test_consts sim_ops BLUEFIELD2_DEVICE_ID
       (sim_start [] [Some 0, Some 1] 0x20000000) 0x10020 9 =
     Some (0, 9,
       \<lparr>write_rcs = [], read_vals = [], idle_val = 0x20000000, failed_reads = 0,
        bus_log = [PciWrite 0x58 0x310491 0, PciRead 0x5c 0,
                   PciWrite 0x58 0x3104b1 0, PciRead 0x5c 1,
                   PciWrite 0x5c 0x10020 0, PciWrite 0x58 0x3104a8 0,
                   PciWrite 0x5c 0x50000010 0, PciWrite 0x58 0x310490 0,
                   PciWrite 0x58 0x310491 0, PciRead 0x5c 0x20000000,
                   PciWrite 0x58 0x310491 0, PciRead 0x5c 0x20000000,
                   PciWrite 0x58 0x310491 0, PciRead 0x5c 0x20000000,
                   PciWrite 0x58 0x310491 0, PciRead 0x5c 0x20000000,
                   PciWrite 0x5c 0 0, PciWrite 0x58 0x3104b0 0]\<rparr>)
   \<and> rshim_byte_acc_write test_consts sim_ops BLUEFIELD2_DEVICE_ID
       (sim_start [0, 0, 0, -5] [Some 1] 0) 0x10020 0x1122334455667788 =
     Some (0,
       \<lparr>write_rcs = [], read_vals = [], idle_val = 0, failed_reads = 0,
        bus_log = [PciWrite 0x58 0x3104b1 0, PciRead 0x5c 1,
                   PciWrite 0x5c 0x10020 0, PciWrite 0x58 0x3104a8 0,
                   PciWrite 0x5c 0x10 (-5),
                   PciWrite 0x5c 0 0, PciWrite 0x58 0x3104b0 0]\<rparr>)"
  by code_simp

section \<open>The order of a widget write\<close>

lemma write_is_write_ops_legacy:
  assumes "did \<noteq> BLUEFIELD2_DEVICE_ID"
  shows "rshim_byte_acc_write cs ops did h addr val = do_cr_ops cs ops did h (write_ops cs did addr val)"
  using assms
  by (auto simp: rshim_byte_acc_write_def rshim_byte_acc_write_body_def exit_write_def
        write_ops_def do_cr_op_def
      split: Option.bind_splits prod.splits if_splits)

lemma write_ops_success_bf2:
  assumes "do_cr_ops cs ops BLUEFIELD2_DEVICE_ID h (write_ops cs BLUEFIELD2_DEVICE_ID addr val) = Some (0, h')"
  shows "rshim_byte_acc_write cs ops BLUEFIELD2_DEVICE_ID h addr val = Some (0, h')"
  using assms
  by (auto simp: rshim_byte_acc_write_def rshim_byte_acc_write_body_def exit_write_def
        write_ops_def do_cr_op_def
      split: Option.bind_splits prod.splits if_splits)

text \<open>
  C9, as the code has it. A widget write in which no step fails issues, in this order:
  interlock acquire (BlueField-2), target address to \<^verbatim>\<open>RSH_BYTE_ACC_ADDR\<close>, size bits to
  \<^verbatim>\<open>RSH_BYTE_ACC_CTL\<close>, low word to \<^verbatim>\<open>RSH_BYTE_ACC_WDAT\<close>, one pending-bit wait, high word
  to \<^verbatim>\<open>RSH_BYTE_ACC_WDAT\<close>, interlock release (BlueField-2). On every other device the
  write is this sequence also when a step fails: it stops there with that step's
  return code.
\<close>

theorem widget_write_order:
  "(did \<noteq> BLUEFIELD2_DEVICE_ID \<longrightarrow>
      rshim_byte_acc_write cs ops did h addr val =
        do_cr_ops cs ops did h (write_ops cs did addr val))
   \<and> (do_cr_ops cs ops did h (write_ops cs did addr val) = Some (0, h') \<longrightarrow>
      rshim_byte_acc_write cs ops did h addr val = Some (0, h'))"
proof (intro conjI impI)
  assume "did \<noteq> BLUEFIELD2_DEVICE_ID"
  then show "rshim_byte_acc_write cs ops did h addr val =
      do_cr_ops cs ops did h (write_ops cs did addr val)"
    by (rule write_is_write_ops_legacy)
next
  assume ok: "do_cr_ops cs ops did h (write_ops cs did addr val) = Some (0, h')"
  show "rshim_byte_acc_write cs ops did h addr val = Some (0, h')"
  proof (cases "did = BLUEFIELD2_DEVICE_ID")
    case True
    with ok show ?thesis by (simp add: write_ops_success_bf2)
  next
    case False
    with ok show ?thesis by (simp add: write_is_write_ops_legacy)
  qed
qed

lemma write_ops_run_bf2:
  "do_cr_ops test_consts sim_ops BLUEFIELD2_DEVICE_ID (sim_start [] [Some 1] 0)
     (write_ops test_consts BLUEFIELD2_DEVICE_ID 0x10020 0x1122334455667788) =
   Some (0,
     \<lparr>write_rcs = [], read_vals = [], idle_val = 0, failed_reads = 0,
      bus_log = [PciWrite 0x58 0x3104b1 0, PciRead 0x5c 1,
                 PciWrite 0x5c 0x10020 0, PciWrite 0x58 0x3104a8 0,
                 PciWrite 0x5c 0x10 0, PciWrite 0x58 0x310490 0,
                 PciWrite 0x5c 0x55667788 0, PciWrite 0x58 0x310498 0,
                 PciWrite 0x58 0x310491 0, PciRead 0x5c 0,
                 PciWrite 0x5c 0x11223344 0, PciWrite 0x58 0x310498 0,
                 PciWrite 0x5c 0 0, PciWrite 0x58 0x3104b0 0]\<rparr>)"
  by code_simp

lemma device_ids_differ: "BLUEFIELD1_DEVICE_ID \<noteq> BLUEFIELD2_DEVICE_ID"
  by (simp add: BLUEFIELD1_DEVICE_ID_def BLUEFIELD2_DEVICE_ID_def)

theorem widget_write_order_witness:
  "BLUEFIELD1_DEVICE_ID \<noteq> BLUEFIELD2_DEVICE_ID
   \<and> rshim_byte_acc_write test_consts sim_ops BLUEFIELD1_DEVICE_ID (sim_start [] [] 0)
        0x10020 0x1122334455667788 =
      do_cr_ops test_consts sim_ops BLUEFIELD1_DEVICE_ID (sim_start [] [] 0)
        (write_ops test_consts BLUEFIELD1_DEVICE_ID 0x10020 0x1122334455667788)
   \<and> rshim_byte_acc_write test_consts sim_ops BLUEFIELD2_DEVICE_ID (sim_start [] [Some 1] 0)
        0x10020 0x1122334455667788 =
      Some (0,
        \<lparr>write_rcs = [], read_vals = [], idle_val = 0, failed_reads = 0,
         bus_log = [PciWrite 0x58 0x3104b1 0, PciRead 0x5c 1,
                    PciWrite 0x5c 0x10020 0, PciWrite 0x58 0x3104a8 0,
                    PciWrite 0x5c 0x10 0, PciWrite 0x58 0x310490 0,
                    PciWrite 0x5c 0x55667788 0, PciWrite 0x58 0x310498 0,
                    PciWrite 0x58 0x310491 0, PciRead 0x5c 0,
                    PciWrite 0x5c 0x11223344 0, PciWrite 0x58 0x310498 0,
                    PciWrite 0x5c 0 0, PciWrite 0x58 0x3104b0 0]\<rparr>)"
  using device_ids_differ write_ops_run_bf2
    widget_write_order [of BLUEFIELD1_DEVICE_ID test_consts sim_ops "sim_start [] [] 0"
      "0x10020" "0x1122334455667788"]
    widget_write_order [of BLUEFIELD2_DEVICE_ID test_consts sim_ops "sim_start [] [Some 1] 0"
      "0x10020" "0x1122334455667788"]
  by blast

text \<open>
  C9 as stated fails: the specification's sequence waits for the pending bit twice,
  the code once. On a BlueField-2 bus without faults both succeed, and the stated
  sequence sends one poll of the control register (\<^verbatim>\<open>0x310491\<close>) that the write never
  sends, between the control write and the low word.
\<close>

theorem widget_write_order_counterexample:
  "map_option (\<lambda>(rc, h). (rc, bus_log h))
     (rshim_byte_acc_write test_consts sim_ops BLUEFIELD2_DEVICE_ID (sim_start [] [Some 1] 0)
        0x10020 0x1122334455667788) =
     Some (0, [PciWrite 0x58 0x3104b1 0, PciRead 0x5c 1,
               PciWrite 0x5c 0x10020 0, PciWrite 0x58 0x3104a8 0,
               PciWrite 0x5c 0x10 0, PciWrite 0x58 0x310490 0,
               PciWrite 0x5c 0x55667788 0, PciWrite 0x58 0x310498 0,
               PciWrite 0x58 0x310491 0, PciRead 0x5c 0,
               PciWrite 0x5c 0x11223344 0, PciWrite 0x58 0x310498 0,
               PciWrite 0x5c 0 0, PciWrite 0x58 0x3104b0 0])
   \<and> map_option (\<lambda>(rc, h). (rc, bus_log h))
     (do_cr_ops test_consts sim_ops BLUEFIELD2_DEVICE_ID (sim_start [] [Some 1] 0)
        (spec_write_ops test_consts BLUEFIELD2_DEVICE_ID 0x10020 0x1122334455667788)) =
     Some (0, [PciWrite 0x58 0x3104b1 0, PciRead 0x5c 1,
               PciWrite 0x5c 0x10020 0, PciWrite 0x58 0x3104a8 0,
               PciWrite 0x5c 0x10 0, PciWrite 0x58 0x310490 0,
               PciWrite 0x58 0x310491 0, PciRead 0x5c 0,
               PciWrite 0x5c 0x55667788 0, PciWrite 0x58 0x310498 0,
               PciWrite 0x58 0x310491 0, PciRead 0x5c 0,
               PciWrite 0x5c 0x11223344 0, PciWrite 0x58 0x310498 0,
               PciWrite 0x5c 0 0, PciWrite 0x58 0x3104b0 0])
   \<and> rshim_byte_acc_write test_consts sim_ops BLUEFIELD2_DEVICE_ID (sim_start [] [Some 1] 0)
        0x10020 0x1122334455667788 \<noteq>
      do_cr_ops test_consts sim_ops BLUEFIELD2_DEVICE_ID (sim_start [] [Some 1] 0)
        (spec_write_ops test_consts BLUEFIELD2_DEVICE_ID 0x10020 0x1122334455667788)"
  by code_simp

section \<open>Routing of a dispatcher write\<close>

text \<open>
  C7, as the code has it. On a usable backend \<^verbatim>\<open>rshim_pcie_write\<close> runs the write throttle
  and then routes by the offset alone: the boot-FIFO data register goes to
  \<^verbatim>\<open>rshim_boot_fifo_write\<close>, every other offset to \<^verbatim>\<open>rshim_byte_acc_write\<close>. In both cases
  the address passed down is \<^verbatim>\<open>RSH_CHANNEL_BASE(chan) + addr\<close>: the channel base is added
  for the boot FIFO too.
\<close>

theorem write_routing:
  assumes "has_rshim dev"
  shows "rshim_pcie_write cs ops dev h chan addr val =
     do {
       (dev', h') \<leftarrow> write_throttle cs ops dev h chan;
       (rc, h'') \<leftarrow>
         (if addr = RSH_BOOT_FIFO_DATA cs
          then rshim_boot_fifo_write cs ops (device_id dev') h'
                 (RSH_CHANNEL_BASE cs chan + RSH_BOOT_FIFO_DATA cs) val
          else rshim_byte_acc_write cs ops (device_id dev') h'
                 (RSH_CHANNEL_BASE cs chan + addr) val);
       Some (rc, dev', h'')
     }"
  using assms
  by (cases "addr = RSH_BOOT_FIFO_DATA cs") (simp_all add: rshim_pcie_write_def)

lemma boot_fifo_write_bf2_run:
  "rshim_boot_fifo_write test_consts sim_ops BLUEFIELD2_DEVICE_ID (sim_start [] [] 0)
     (RSH_CHANNEL_BASE test_consts 2 + RSH_BOOT_FIFO_DATA test_consts) 0xAABBCCDDEEFF0011 =
   Some (0,
     \<lparr>write_rcs = [], read_vals = [], idle_val = 0, failed_reads = 0,
      bus_log = [PciWrite 0x5c 0xEEFF0011 0, PciWrite 0x58 0x310408 0,
                 PciWrite 0x5c 0xAABBCCDD 0, PciWrite 0x58 0x310408 0]\<rparr>)"
  by code_simp

lemma throttle_bf2_run:
  "write_throttle test_consts sim_ops (rshim_pcie_probe BLUEFIELD2_DEVICE_ID) (sim_start [] [] 0) 2
     = Some (rshim_pcie_probe BLUEFIELD2_DEVICE_ID, sim_start [] [] 0)"
  by (simp add: write_throttle_def rshim_pcie_probe_def BLUEFIELD1_DEVICE_ID_def
        BLUEFIELD2_DEVICE_ID_def)

theorem write_routing_witness:
  "has_rshim (rshim_pcie_probe BLUEFIELD2_DEVICE_ID)
   \<and> rshim_pcie_write test_consts sim_ops (rshim_pcie_probe BLUEFIELD2_DEVICE_ID)
        (sim_start [] [] 0) 2 0x408 0xAABBCCDDEEFF0011 =
      Some (0, rshim_pcie_probe BLUEFIELD2_DEVICE_ID,
        \<lparr>write_rcs = [], read_vals = [], idle_val = 0, failed_reads = 0,
         bus_log = [PciWrite 0x5c 0xEEFF0011 0, PciWrite 0x58 0x310408 0,
                    PciWrite 0x5c 0xAABBCCDD 0, PciWrite 0x58 0x310408 0]\<rparr>)"
proof -
  have a: "has_rshim (rshim_pcie_probe BLUEFIELD2_DEVICE_ID)"
    by (simp add: rshim_pcie_probe_def)
  have f: "RSH_BOOT_FIFO_DATA test_consts = 0x408" by (simp add: test_consts_def)
  have d: "device_id (rshim_pcie_probe BLUEFIELD2_DEVICE_ID) = BLUEFIELD2_DEVICE_ID"
    by (simp add: rshim_pcie_probe_def)
  show ?thesis
    using a write_routing [OF a, of test_consts sim_ops "sim_start [] [] 0" 2 "0x408"
        "0xAABBCCDDEEFF0011"]
    by (simp add: throttle_bf2_run f [symmetric] d boot_fifo_write_bf2_run)
qed

text \<open>
  C7 as stated fails on the boot FIFO: the address passed down is channel-offset. On
  BlueField-1, channel 2, the dispatcher hands \<^verbatim>\<open>0x20408\<close> to the Boot FIFO Writer and
  that is what reaches the gateway's address register; the routing as claimed would
  put \<^verbatim>\<open>0x408\<close> there.
\<close>

theorem write_routing_counterexample:
  "map_option (\<lambda>(rc, dev, h). bus_log h)
     (rshim_pcie_write test_consts sim_ops (rshim_pcie_probe BLUEFIELD1_DEVICE_ID)
        (sim_start [] [] 0) 2 0x408 0xAABBCCDDEEFF0011) =
     Some [PciWrite 0x58 0xe38a1 0, PciRead 0x5c 0,
           PciWrite 0x5c 0x80000000 0, PciWrite 0x58 0xe38a0 0,
           PciWrite 0x5c 0x1100FFEE 0, PciWrite 0x58 0xe38b0 0,
           PciWrite 0x5c 0x20408 0, PciWrite 0x58 0xe38bc 0,
           PciWrite 0x5c 2 0, PciWrite 0x58 0xe38b4 0,
           PciWrite 0x5c 0xe0000000 0, PciWrite 0x58 0xe38a0 0,
           PciWrite 0x5c 0 0, PciWrite 0x58 0xe38a0 0,
           PciWrite 0x58 0xe38a1 0, PciRead 0x5c 0,
           PciWrite 0x5c 0x80000000 0, PciWrite 0x58 0xe38a0 0,
           PciWrite 0x5c 0xDDCCBBAA 0, PciWrite 0x58 0xe38b0 0,
           PciWrite 0x5c 0x20408 0, PciWrite 0x58 0xe38bc 0,
           PciWrite 0x5c 2 0, PciWrite 0x58 0xe38b4 0,
           PciWrite 0x5c 0xe0000000 0, PciWrite 0x58 0xe38a0 0,
           PciWrite 0x5c 0 0, PciWrite 0x58 0xe38a0 0]
   \<and> map_option (\<lambda>(rc, h). bus_log h)
     (claimed_route test_consts sim_ops BLUEFIELD1_DEVICE_ID
        (sim_start [] [] 0) 2 0x408 0xAABBCCDDEEFF0011) =
     Some [PciWrite 0x58 0xe38a1 0, PciRead 0x5c 0,
           PciWrite 0x5c 0x80000000 0, PciWrite 0x58 0xe38a0 0,
           PciWrite 0x5c 0x1100FFEE 0, PciWrite 0x58 0xe38b0 0,
           PciWrite 0x5c 0x408 0, PciWrite 0x58 0xe38bc 0,
           PciWrite 0x5c 2 0, PciWrite 0x58 0xe38b4 0,
           PciWrite 0x5c 0xe0000000 0, PciWrite 0x58 0xe38a0 0,
           PciWrite 0x5c 0 0, PciWrite 0x58 0xe38a0 0,
           PciWrite 0x58 0xe38a1 0, PciRead 0x5c 0,
           PciWrite 0x5c 0x80000000 0, PciWrite 0x58 0xe38a0 0,
           PciWrite 0x5c 0xDDCCBBAA 0, PciWrite 0x58 0xe38b0 0,
           PciWrite 0x5c 0x408 0, PciWrite 0x58 0xe38bc 0,
           PciWrite 0x5c 2 0, PciWrite 0x58 0xe38b4 0,
           PciWrite 0x5c 0xe0000000 0, PciWrite 0x58 0xe38a0 0,
           PciWrite 0x5c 0 0, PciWrite 0x58 0xe38a0 0]"
  by code_simp

section \<open>The dispatcher and its write counter\<close>

lemma returns_exists: "returns m P \<Longrightarrow> \<exists>x. m = Some x \<and> P x"
  by (cases m) (auto simp: returns_def)

lemma rshim_pcie_read_returns:
  assumes b: "LOCK_RETRY_CNT cs < 0x7fffffff" and "has_rshim dev"
  shows "\<exists>rc v h'. rshim_pcie_read cs ops dev h chan addr r
           = Some (rc, v, dev\<lparr>write_count := 0\<rparr>, h')"
proof -
  obtain x where "rshim_byte_acc_read cs ops (device_id dev) h (RSH_CHANNEL_BASE cs chan + addr) r
      = Some x"
    using returns_exists [OF rshim_byte_acc_read_returns [OF b, of ops "device_id dev" h
        "RSH_CHANNEL_BASE cs chan + addr" r]]
    by blast
  then show ?thesis
    using assms(2) by (cases x) (simp add: rshim_pcie_read_def)
qed

lemma issue_write_returns:
  assumes b: "LOCK_RETRY_CNT cs < 0x7fffffff"
  shows "\<exists>rc h'. issue_write cs ops dev h chan addr val = Some (rc, dev, h')"
proof -
  obtain x where "(if addr = RSH_BOOT_FIFO_DATA cs
          then rshim_boot_fifo_write cs ops (device_id dev) h (RSH_CHANNEL_BASE cs chan + addr) val
          else rshim_byte_acc_write cs ops (device_id dev) h (RSH_CHANNEL_BASE cs chan + addr) val)
      = Some x"
    using returns_exists [OF rshim_boot_fifo_write_returns [OF b, of ops "device_id dev" h
        "RSH_CHANNEL_BASE cs chan + addr" val]]
      returns_exists [OF rshim_byte_acc_write_returns [OF b, of ops "device_id dev" h
        "RSH_CHANNEL_BASE cs chan + addr" val]]
    by (cases "addr = RSH_BOOT_FIFO_DATA cs") auto
  then show ?thesis
    unfolding issue_write_def by (cases x) simp
qed

lemma write_without_drain:
  assumes "has_rshim dev" "device_id dev = BLUEFIELD1_DEVICE_ID" "write_count dev \<noteq> 7"
  shows "rshim_pcie_write cs ops dev h chan addr val =
           issue_write cs ops (dev\<lparr>write_count := write_count dev + 1\<rparr>) h chan addr val"
  using assms
  by (cases "addr = RSH_BOOT_FIFO_DATA cs")
     (simp_all add: rshim_pcie_write_def write_throttle_def issue_write_def)

lemma write_with_drain:
  assumes "has_rshim dev" "device_id dev = BLUEFIELD1_DEVICE_ID" "write_count dev = 7"
  shows "rshim_pcie_write cs ops dev h chan addr val = drain_then_write cs ops dev h chan addr val"
  using assms
  by (cases "addr = RSH_BOOT_FIFO_DATA cs")
     (auto simp: rshim_pcie_write_def write_throttle_def issue_write_def drain_then_write_def
        rshim_pcie_read_def
      split: Option.bind_splits prod.splits)

lemma write_other_device:
  assumes "has_rshim dev" "device_id dev \<noteq> BLUEFIELD1_DEVICE_ID"
  shows "rshim_pcie_write cs ops dev h chan addr val = issue_write cs ops dev h chan addr val"
  using assms
  by (cases "addr = RSH_BOOT_FIFO_DATA cs")
     (simp_all add: rshim_pcie_write_def write_throttle_def issue_write_def)

lemma count_succ:
  fixes c :: u8
  assumes "unat c \<le> 7" "c \<noteq> 7"
  shows "unat (c + 1) = unat c + 1"
proof -
  have "unat c \<noteq> 7" using assms(2) by (simp add: word_unat_eq_iff)
  then have "unat c + 1 < 2 ^ 8" using assms(1) by simp
  then show ?thesis by (simp add: unat_word_ariths)
qed

lemma rshim_pcie_write_returns:
  assumes b: "LOCK_RETRY_CNT cs < 0x7fffffff" and r: "has_rshim dev"
  shows "\<exists>rc h'. rshim_pcie_write cs ops dev h chan addr val =
           Some (rc,
             dev\<lparr>write_count :=
               (if device_id dev = BLUEFIELD1_DEVICE_ID
                then (if write_count dev = 7 then 1 else write_count dev + 1)
                else write_count dev)\<rparr>, h')"
proof (cases "device_id dev = BLUEFIELD1_DEVICE_ID")
  case False
  then show ?thesis
    using issue_write_returns [OF b, of ops dev h chan addr val] r
    by (simp add: write_other_device)
next
  case bf1: True
  show ?thesis
  proof (cases "write_count dev = 7")
    case False
    then show ?thesis
      using issue_write_returns [OF b, of ops "dev\<lparr>write_count := write_count dev + 1\<rparr>" h chan addr val]
        r bf1
      by (simp add: write_without_drain)
  next
    case True
    obtain rc0 v0 h0 where rd: "rshim_pcie_read cs ops dev h chan (RSH_SCRATCHPAD cs) 0
        = Some (rc0, v0, dev\<lparr>write_count := 0\<rparr>, h0)"
      using rshim_pcie_read_returns [OF b r, where ops = ops and h = h and chan = chan
          and addr = "RSH_SCRATCHPAD cs" and r = 0]
      by blast
    show ?thesis
      using issue_write_returns [OF b, of ops "dev\<lparr>write_count := 1\<rparr>" h0 chan addr val]
        r bf1 True rd
      by (simp add: write_with_drain drain_then_write_def)
  qed
qed

lemma probe_ok: "backend_ok did (rshim_pcie_probe did)"
  by (simp add: backend_ok_def rshim_pcie_probe_def)

lemma do_call_ok:
  assumes b: "LOCK_RETRY_CNT cs < 0x7fffffff" and ok: "backend_ok did dev"
  shows "\<exists>dev' h'. do_call cs ops dev h c = Some (dev', h') \<and> backend_ok did dev'"
proof (cases c)
  case (BackendRead chan addr)
  have r: "has_rshim dev" using ok by (simp add: backend_ok_def)
  obtain rc v h' where "rshim_pcie_read cs ops dev h chan addr 0
      = Some (rc, v, dev\<lparr>write_count := 0\<rparr>, h')"
    using rshim_pcie_read_returns [OF b r, where ops = ops and h = h and chan = chan
        and addr = addr and r = 0]
    by blast
  then show ?thesis
    using BackendRead ok by (simp add: do_call_def backend_ok_def)
next
  case (BackendWrite chan addr val)
  have r: "has_rshim dev" using ok by (simp add: backend_ok_def)
  obtain rc h' where w: "rshim_pcie_write cs ops dev h chan addr val =
           Some (rc,
             dev\<lparr>write_count :=
               (if device_id dev = BLUEFIELD1_DEVICE_ID
                then (if write_count dev = 7 then 1 else write_count dev + 1)
                else write_count dev)\<rparr>, h')"
    using rshim_pcie_write_returns [OF b r, where ops = ops and h = h and chan = chan
        and addr = addr and val = val]
    by blast
  have "write_count dev \<noteq> 7 \<Longrightarrow> unat (write_count dev + 1) \<le> 7"
    using ok count_succ [of "write_count dev"]
    by (auto simp: backend_ok_def word_unat_eq_iff)
  then show ?thesis
    using BackendWrite ok w by (auto simp: do_call_def backend_ok_def)
qed

lemma run_calls_ok:
  assumes b: "LOCK_RETRY_CNT cs < 0x7fffffff" and ok: "backend_ok did dev"
  shows "\<exists>dev' h'. run_calls cs ops dev h calls = Some (dev', h') \<and> backend_ok did dev'"
  using ok
proof (induction calls arbitrary: dev h)
  case Nil
  then show ?case by simp
next
  case (Cons c calls)
  obtain dev1 h1 where 1: "do_call cs ops dev h c = Some (dev1, h1)" "backend_ok did dev1"
    using do_call_ok [OF b Cons.prems, where ops = ops and h = h and c = c] by blast
  from Cons.IH [OF 1(2), of h1] 1(1) show ?case by simp
qed

lemma run_calls_append:
  "run_calls cs ops dev h (xs @ ys) =
     do { (dev', h') \<leftarrow> run_calls cs ops dev h xs; run_calls cs ops dev' h' ys }"
  by (induction xs arbitrary: dev h) (auto split: Option.bind_splits)

lemma run_calls_ends_in_read:
  assumes b: "LOCK_RETRY_CNT cs < 0x7fffffff" and ok: "backend_ok did dev"
    and ne: "calls \<noteq> []" and l: "is_read (last calls)"
  shows "\<exists>dev' h'. run_calls cs ops dev h calls = Some (dev', h') \<and> backend_ok did dev'
           \<and> write_count dev' = 0"
proof -
  obtain pre c where calls: "calls = pre @ [c]" using ne by (metis rev_exhaust)
  with l obtain chan addr where c: "c = BackendRead chan addr" by (cases c) auto
  obtain dev1 h1 where 1: "run_calls cs ops dev h pre = Some (dev1, h1)" "backend_ok did dev1"
    using run_calls_ok [OF b ok, where ops = ops and h = h and calls = pre] by blast
  then have r: "has_rshim dev1" by (simp add: backend_ok_def)
  obtain rc v h' where "rshim_pcie_read cs ops dev1 h1 chan addr 0
      = Some (rc, v, dev1\<lparr>write_count := 0\<rparr>, h')"
    using rshim_pcie_read_returns [OF b r, where ops = ops and h = h1 and chan = chan
        and addr = addr and r = 0]
    by blast
  then show ?thesis
    using 1 calls c by (simp add: run_calls_append do_call_def backend_ok_def)
qed

lemma run_writes_count:
  assumes b: "LOCK_RETRY_CNT cs < 0x7fffffff"
    and ok: "backend_ok BLUEFIELD1_DEVICE_ID dev"
    and ws: "list_all is_write ws"
    and n: "unat (write_count dev) + length ws \<le> 7"
  shows "\<exists>dev' h'. run_calls cs ops dev h ws = Some (dev', h')
           \<and> backend_ok BLUEFIELD1_DEVICE_ID dev'
           \<and> unat (write_count dev') = unat (write_count dev) + length ws"
  using ok ws n
proof (induction ws arbitrary: dev h)
  case Nil
  then show ?case by simp
next
  case (Cons c ws)
  from Cons.prems(2) obtain chan addr val where c: "c = BackendWrite chan addr val"
    by (cases c) auto
  have r: "has_rshim dev" and d: "device_id dev = BLUEFIELD1_DEVICE_ID"
    using Cons.prems(1) by (simp_all add: backend_ok_def)
  have lt: "unat (write_count dev) < 7" using Cons.prems(3) by simp
  then have ne: "write_count dev \<noteq> 7" by auto
  have le: "unat (write_count dev) \<le> 7" using lt by simp
  have succ: "unat (write_count dev + 1) = unat (write_count dev) + 1"
    by (rule count_succ [OF le ne])
  obtain rc h1 where w: "rshim_pcie_write cs ops dev h chan addr val =
      Some (rc, dev\<lparr>write_count := write_count dev + 1\<rparr>, h1)"
    using rshim_pcie_write_returns [OF b r, of ops h chan addr val] d ne by auto
  have ok1: "backend_ok BLUEFIELD1_DEVICE_ID (dev\<lparr>write_count := write_count dev + 1\<rparr>)"
    using Cons.prems(1) succ lt by (simp add: backend_ok_def)
  have "unat (write_count (dev\<lparr>write_count := write_count dev + 1\<rparr>)) + length ws \<le> 7"
    using Cons.prems(3) succ by simp
  from Cons.IH [OF ok1 _ this, of h1] Cons.prems(2) w c succ
  show ?case by (auto simp: do_call_def)
qed

text \<open>
  C10. Whatever calls the front end has made since the probe, on whatever device, the
  write counter is between 0 and 7 (and 0 on every device but BlueField-1). In that
  state every read returns with the counter at 0, and every write returns with the
  counter, as a number, one above its old value, or at 1 when the old value was 7 and
  the write began with the drain read: the 8-bit counter never wraps.
\<close>

theorem write_count_stays_in_range:
  assumes "LOCK_RETRY_CNT cs < 0x7fffffff"
  shows "\<exists>dev h'. run_calls cs ops (rshim_pcie_probe did) h calls = Some (dev, h')
           \<and> unat (write_count dev) \<le> 7
           \<and> (did \<noteq> BLUEFIELD1_DEVICE_ID \<longrightarrow> write_count dev = 0)
           \<and> (\<forall>chan addr r. \<exists>rc v h''.
                 rshim_pcie_read cs ops dev h' chan addr r
                   = Some (rc, v, dev\<lparr>write_count := 0\<rparr>, h''))
           \<and> (\<forall>chan addr val. \<exists>rc dev' h''.
                 rshim_pcie_write cs ops dev h' chan addr val = Some (rc, dev', h'')
                 \<and> unat (write_count dev') =
                     (if did = BLUEFIELD1_DEVICE_ID
                      then (if write_count dev = 7 then 1 else unat (write_count dev) + 1)
                      else 0)
                 \<and> unat (write_count dev') \<le> 7
                 \<and> (did = BLUEFIELD1_DEVICE_ID \<and> write_count dev = 7 \<longrightarrow>
                      rshim_pcie_write cs ops dev h' chan addr val
                        = drain_then_write cs ops dev h' chan addr val))"
proof -
  note b = assms
  obtain dev h' where run: "run_calls cs ops (rshim_pcie_probe did) h calls = Some (dev, h')"
    and ok: "backend_ok did dev"
    using run_calls_ok [OF b probe_ok, where ops = ops and h = h and calls = calls and did = did]
    by blast
  have r: "has_rshim dev" and d: "device_id dev = did" and le: "unat (write_count dev) \<le> 7"
    and z: "did \<noteq> BLUEFIELD1_DEVICE_ID \<longrightarrow> write_count dev = 0"
    using ok by (simp_all add: backend_ok_def)
  have rd: "\<exists>rc v h''. rshim_pcie_read cs ops dev h' chan addr r
                   = Some (rc, v, dev\<lparr>write_count := 0\<rparr>, h'')" for chan addr r
    by (rule rshim_pcie_read_returns [OF b r])
  have wr: "\<exists>rc dev' h''.
                 rshim_pcie_write cs ops dev h' chan addr val = Some (rc, dev', h'')
                 \<and> unat (write_count dev') =
                     (if did = BLUEFIELD1_DEVICE_ID
                      then (if write_count dev = 7 then 1 else unat (write_count dev) + 1)
                      else 0)
                 \<and> unat (write_count dev') \<le> 7
                 \<and> (did = BLUEFIELD1_DEVICE_ID \<and> write_count dev = 7 \<longrightarrow>
                      rshim_pcie_write cs ops dev h' chan addr val
                        = drain_then_write cs ops dev h' chan addr val)" for chan addr val
  proof -
    obtain rc h'' where w: "rshim_pcie_write cs ops dev h' chan addr val =
           Some (rc,
             dev\<lparr>write_count :=
               (if device_id dev = BLUEFIELD1_DEVICE_ID
                then (if write_count dev = 7 then 1 else write_count dev + 1)
                else write_count dev)\<rparr>, h'')"
      using rshim_pcie_write_returns [OF b r, where ops = ops and h = h' and chan = chan
          and addr = addr and val = val]
      by blast
    have s: "write_count dev \<noteq> 7 \<Longrightarrow> unat (write_count dev + 1) = unat (write_count dev) + 1"
      by (rule count_succ [OF le])
    have u: "write_count dev \<noteq> 7 \<Longrightarrow> unat (write_count dev) + 1 \<le> 7"
      using le by (auto simp: word_unat_eq_iff)
    show ?thesis
      using w d z s u r by (auto simp: write_with_drain)
  qed
  show ?thesis using run le z rd wr by blast
qed

text \<open>
  Eight boot-FIFO writes after the probe on BlueField-1: 8 times 28 transactions for
  the writes and 98 for the one drain read before the eighth.
\<close>

lemma eight_boot_fifo_writes:
  "run_calls test_consts quiet_ops (rshim_pcie_probe BLUEFIELD1_DEVICE_ID) 0
        (replicate 8 (BackendWrite 0 0x408 5)) =
     Some (\<lparr>has_rshim = True, device_id = BLUEFIELD1_DEVICE_ID, write_count = 1\<rparr>, 322)"
  by code_simp

theorem write_count_stays_in_range_witness:
  "LOCK_RETRY_CNT test_consts < 0x7fffffff
   \<and> (\<exists>dev h'. run_calls test_consts quiet_ops (rshim_pcie_probe BLUEFIELD1_DEVICE_ID) 0
          (replicate 8 (BackendWrite 0 0x408 5)) = Some (dev, h')
        \<and> unat (write_count dev) \<le> 7 \<and> write_count dev = 1 \<and> h' = 322)"
proof -
  have b: "LOCK_RETRY_CNT test_consts < 0x7fffffff" by (simp add: test_consts_def)
  obtain dev h' where
    run: "run_calls test_consts quiet_ops (rshim_pcie_probe BLUEFIELD1_DEVICE_ID) 0
            (replicate 8 (BackendWrite 0 0x408 5)) = Some (dev, h')"
    and le: "unat (write_count dev) \<le> 7"
    using write_count_stays_in_range [OF b, where ops = quiet_ops and h = 0
        and did = BLUEFIELD1_DEVICE_ID and calls = "replicate 8 (BackendWrite 0 0x408 5)"]
    by blast
  have "write_count dev = 1 \<and> h' = 322" using eight_boot_fifo_writes unfolding run by simp
  then show ?thesis using b run le by blast
qed

section \<open>The write throttle\<close>

text \<open>
  C5. On BlueField-1, take any calls since the probe that are none or end in a read,
  and seven writes after them. None of the seven begins with a drain read: the write
  number \<open>k + 1\<close> finds the counter at \<open>k\<close> and is the plain write with the counter
  incremented. After the seven the counter is 7, and whatever write comes next first
  reads the scratch register through \<^verbatim>\<open>rshim_pcie_read\<close> and then issues its own write.
  On every device every read, after any calls, returns with the counter at 0. On
  BlueField-2, after any calls, a write is the plain write, with no read before it and
  the counter left at 0.
\<close>

theorem write_throttle_every_seven:
  assumes "LOCK_RETRY_CNT cs < 0x7fffffff"
  shows "((pre = [] \<or> is_read (last pre)) \<and> length ws = 7 \<and> list_all is_write ws \<longrightarrow>
           (\<exists>dev0 h0.
              run_calls cs ops (rshim_pcie_probe BLUEFIELD1_DEVICE_ID) h pre = Some (dev0, h0)
              \<and> (\<forall>k<7. \<exists>devk hk.
                    run_calls cs ops dev0 h0 (take k ws) = Some (devk, hk)
                    \<and> unat (write_count devk) = k
                    \<and> (\<forall>chan addr val.
                          rshim_pcie_write cs ops devk hk chan addr val =
                            issue_write cs ops (devk\<lparr>write_count := write_count devk + 1\<rparr>)
                              hk chan addr val))
              \<and> (\<exists>dev7 h7.
                    run_calls cs ops dev0 h0 ws = Some (dev7, h7)
                    \<and> write_count dev7 = 7
                    \<and> (\<forall>chan addr val.
                          rshim_pcie_write cs ops dev7 h7 chan addr val =
                            drain_then_write cs ops dev7 h7 chan addr val))))
       \<and> (\<exists>dev h' rc v h''.
             run_calls cs ops (rshim_pcie_probe did) h calls = Some (dev, h')
             \<and> rshim_pcie_read cs ops dev h' chan addr r
                  = Some (rc, v, dev\<lparr>write_count := 0\<rparr>, h''))
       \<and> (\<exists>dev h'.
             run_calls cs ops (rshim_pcie_probe BLUEFIELD2_DEVICE_ID) h calls = Some (dev, h')
             \<and> write_count dev = 0
             \<and> (\<forall>chan addr val.
                   rshim_pcie_write cs ops dev h' chan addr val =
                     issue_write cs ops dev h' chan addr val))"
proof (intro conjI impI)
  note b = assms
  assume a: "(pre = [] \<or> is_read (last pre)) \<and> length ws = 7 \<and> list_all is_write ws"
  then have len: "length ws = 7" and wr: "list_all is_write ws" by simp_all
  obtain dev0 h0 where
    pre: "run_calls cs ops (rshim_pcie_probe BLUEFIELD1_DEVICE_ID) h pre = Some (dev0, h0)"
    and ok0: "backend_ok BLUEFIELD1_DEVICE_ID dev0" and c0: "write_count dev0 = 0"
  proof (cases "pre = []")
    case True
    then show ?thesis
      using that [of "rshim_pcie_probe BLUEFIELD1_DEVICE_ID" h] probe_ok
      by (simp add: rshim_pcie_probe_def)
  next
    case False
    with a have "is_read (last pre)" by simp
    from run_calls_ends_in_read [OF b probe_ok False this, where ops = ops and h = h]
    show ?thesis using that by blast
  qed
  have step: "\<exists>devk hk.
                run_calls cs ops dev0 h0 (take k ws) = Some (devk, hk)
                \<and> backend_ok BLUEFIELD1_DEVICE_ID devk
                \<and> unat (write_count devk) = k" if "k \<le> 7" for k
  proof -
    have 1: "list_all is_write (take k ws)"
      using wr by (auto simp: list_all_iff dest: in_set_takeD)
    have 2: "unat (write_count dev0) + length (take k ws) \<le> 7"
      using c0 len that by simp
    from run_writes_count [OF b ok0 1 2, where ops = ops and h = h0] c0 len that
    show ?thesis by auto
  qed
  have first7: "\<forall>k<7. \<exists>devk hk.
                    run_calls cs ops dev0 h0 (take k ws) = Some (devk, hk)
                    \<and> unat (write_count devk) = k
                    \<and> (\<forall>chan addr val.
                          rshim_pcie_write cs ops devk hk chan addr val =
                            issue_write cs ops (devk\<lparr>write_count := write_count devk + 1\<rparr>)
                              hk chan addr val)"
  proof (intro allI impI)
    fix k :: nat assume k: "k < 7"
    then obtain devk hk where
      run: "run_calls cs ops dev0 h0 (take k ws) = Some (devk, hk)"
      and ok: "backend_ok BLUEFIELD1_DEVICE_ID devk" and c: "unat (write_count devk) = k"
      using step [of k] by auto
    have ne: "write_count devk \<noteq> 7" using c k by auto
    have "rshim_pcie_write cs ops devk hk chan addr val =
            issue_write cs ops (devk\<lparr>write_count := write_count devk + 1\<rparr>) hk chan addr val"
      for chan addr val
      using ok ne by (intro write_without_drain) (simp_all add: backend_ok_def)
    with run c show "\<exists>devk hk.
                    run_calls cs ops dev0 h0 (take k ws) = Some (devk, hk)
                    \<and> unat (write_count devk) = k
                    \<and> (\<forall>chan addr val.
                          rshim_pcie_write cs ops devk hk chan addr val =
                            issue_write cs ops (devk\<lparr>write_count := write_count devk + 1\<rparr>)
                              hk chan addr val)"
      by blast
  qed
  have eighth: "\<exists>dev7 h7.
                    run_calls cs ops dev0 h0 ws = Some (dev7, h7)
                    \<and> write_count dev7 = 7
                    \<and> (\<forall>chan addr val.
                          rshim_pcie_write cs ops dev7 h7 chan addr val =
                            drain_then_write cs ops dev7 h7 chan addr val)"
  proof -
    obtain dev7 h7 where
      run: "run_calls cs ops dev0 h0 ws = Some (dev7, h7)"
      and ok: "backend_ok BLUEFIELD1_DEVICE_ID dev7" and c: "unat (write_count dev7) = 7"
      using step [of 7] len by auto
    have c7: "write_count dev7 = 7" using c by (simp add: word_unat_eq_iff)
    have "rshim_pcie_write cs ops dev7 h7 chan addr val =
            drain_then_write cs ops dev7 h7 chan addr val" for chan addr val
      using ok c7 by (intro write_with_drain) (simp_all add: backend_ok_def)
    with run c7 show ?thesis by blast
  qed
  show "\<exists>dev0 h0.
              run_calls cs ops (rshim_pcie_probe BLUEFIELD1_DEVICE_ID) h pre = Some (dev0, h0)
              \<and> (\<forall>k<7. \<exists>devk hk.
                    run_calls cs ops dev0 h0 (take k ws) = Some (devk, hk)
                    \<and> unat (write_count devk) = k
                    \<and> (\<forall>chan addr val.
                          rshim_pcie_write cs ops devk hk chan addr val =
                            issue_write cs ops (devk\<lparr>write_count := write_count devk + 1\<rparr>)
                              hk chan addr val))
              \<and> (\<exists>dev7 h7.
                    run_calls cs ops dev0 h0 ws = Some (dev7, h7)
                    \<and> write_count dev7 = 7
                    \<and> (\<forall>chan addr val.
                          rshim_pcie_write cs ops dev7 h7 chan addr val =
                            drain_then_write cs ops dev7 h7 chan addr val))"
    using pre first7 eighth by blast
next
  note b = assms
  obtain dev h' where run: "run_calls cs ops (rshim_pcie_probe did) h calls = Some (dev, h')"
    and ok: "backend_ok did dev"
    using run_calls_ok [OF b probe_ok, where ops = ops and h = h and calls = calls and did = did]
    by blast
  then have r: "has_rshim dev" by (simp add: backend_ok_def)
  from rshim_pcie_read_returns [OF b r, where ops = ops and h = h' and chan = chan
      and addr = addr and r = r] run
  show "\<exists>dev h' rc v h''.
             run_calls cs ops (rshim_pcie_probe did) h calls = Some (dev, h')
             \<and> rshim_pcie_read cs ops dev h' chan addr r
                  = Some (rc, v, dev\<lparr>write_count := 0\<rparr>, h'')"
    by blast
next
  note b = assms
  obtain dev h' where
    run: "run_calls cs ops (rshim_pcie_probe BLUEFIELD2_DEVICE_ID) h calls = Some (dev, h')"
    and ok: "backend_ok BLUEFIELD2_DEVICE_ID dev"
    using run_calls_ok [OF b probe_ok, where ops = ops and h = h and calls = calls
        and did = BLUEFIELD2_DEVICE_ID]
    by blast
  have ne: "BLUEFIELD2_DEVICE_ID \<noteq> BLUEFIELD1_DEVICE_ID"
    by (simp add: BLUEFIELD1_DEVICE_ID_def BLUEFIELD2_DEVICE_ID_def)
  have z: "write_count dev = 0" using ok ne by (simp add: backend_ok_def)
  have "rshim_pcie_write cs ops dev h' chan addr val = issue_write cs ops dev h' chan addr val"
    for chan addr val
    using ok ne by (intro write_other_device) (simp_all add: backend_ok_def)
  with run z show "\<exists>dev h'.
             run_calls cs ops (rshim_pcie_probe BLUEFIELD2_DEVICE_ID) h calls = Some (dev, h')
             \<and> write_count dev = 0
             \<and> (\<forall>chan addr val.
                   rshim_pcie_write cs ops dev h' chan addr val =
                     issue_write cs ops dev h' chan addr val)"
    by blast
qed

theorem write_throttle_every_seven_witness:
  "LOCK_RETRY_CNT test_consts < 0x7fffffff
   \<and> ([BackendRead 0 0x20] = [] \<or> is_read (last [BackendRead 0 0x20]))
   \<and> length (replicate 7 (BackendWrite 0 0x408 5)) = 7
   \<and> list_all is_write (replicate 7 (BackendWrite 0 0x408 5))
   \<and> (\<exists>dev0 h0.
         run_calls test_consts quiet_ops (rshim_pcie_probe BLUEFIELD1_DEVICE_ID) 0
           [BackendRead 0 0x20] = Some (dev0, h0)
         \<and> (\<exists>dev7 h7.
               run_calls test_consts quiet_ops dev0 h0 (replicate 7 (BackendWrite 0 0x408 5))
                 = Some (dev7, h7)
               \<and> write_count dev7 = 7
               \<and> rshim_pcie_write test_consts quiet_ops dev7 h7 0 0x408 5 =
                   drain_then_write test_consts quiet_ops dev7 h7 0 0x408 5))"
proof -
  have b: "LOCK_RETRY_CNT test_consts < 0x7fffffff" by (simp add: test_consts_def)
  have p: "[BackendRead 0 0x20] = [] \<or> is_read (last [BackendRead 0 0x20])" by simp
  have l: "length (replicate 7 (BackendWrite 0 0x408 5)) = 7" by simp
  have w: "list_all is_write (replicate 7 (BackendWrite 0 0x408 5))"
    by (simp add: list_all_iff)
  from write_throttle_every_seven [OF b, where ops = quiet_ops and h = 0
      and pre = "[BackendRead 0 0x20]" and ws = "replicate 7 (BackendWrite 0 0x408 5)"
      and did = BLUEFIELD1_DEVICE_ID and calls = "[]" and chan = 0 and addr = 0 and r = 0]
  have "\<exists>dev0 h0.
         run_calls test_consts quiet_ops (rshim_pcie_probe BLUEFIELD1_DEVICE_ID) 0
           [BackendRead 0 0x20] = Some (dev0, h0)
         \<and> (\<exists>dev7 h7.
               run_calls test_consts quiet_ops dev0 h0 (replicate 7 (BackendWrite 0 0x408 5))
                 = Some (dev7, h7)
               \<and> write_count dev7 = 7
               \<and> rshim_pcie_write test_consts quiet_ops dev7 h7 0 0x408 5 =
                   drain_then_write test_consts quiet_ops dev7 h7 0 0x408 5)"
    using p l w by blast
  then show ?thesis using b p l w by blast
qed

section \<open>Byte order and word halves\<close>







section \<open>The capability accessor on the simulated devices\<close>





section \<open>The CR-space accessor on the simulated devices\<close>
















section \<open>The widget on the simulated devices\<close>











section \<open>The round trip\<close>





text \<open>
  The example of the specification (channel 2, offset \<^verbatim>\<open>0x100\<close>) on the newer revision,
  by evaluation.
\<close>

lemma round_trip_run_bf2:
  "write_then_read test_consts (regfile_ops test_consts BLUEFIELD2_DEVICE_ID)
     (rshim_pcie_probe BLUEFIELD2_DEVICE_ID) sim_idle 2 0x100 0x1122334455667788 0
     = Some (0, 0, 0x1122334455667788)"
  by code_simp






end
